theory Spec2Isabelle
  imports Main "HOL-Library.Multiset" "HOL-Library.Product_Lexorder" "HOL-Library.List_Lexorder"
begin

section \<open>Python values used by the views\<close>

text \<open>
  A Python \<open>str\<close> is a sequence of Unicode code points, and \<open>len\<close> counts code
  points; it is modelled as a list of code points. The fixed ASCII texts of the source
  (dictionary keys, response messages) are written as HOL strings.
\<close>

type_synonym pystr = "nat list"

definition ascii :: "string \<Rightarrow> pystr" where
  "ascii s = map of_char s"

text \<open>
  \<open>str.strip()\<close> with no argument removes leading and trailing characters for which
  \<open>str.isspace\<close> holds: the ASCII white space and separators U+0009..U+000D,
  U+001C..U+0020, and U+0085, U+00A0, U+1680, U+2000..U+200A, U+2028, U+2029, U+202F,
  U+205F, U+3000.
\<close>

definition isspace :: "nat \<Rightarrow> bool" where
  "isspace c = ((9 \<le> c \<and> c \<le> 13) \<or> (28 \<le> c \<and> c \<le> 32) \<or> c = 133 \<or> c = 160
     \<or> c = 5760 \<or> (8192 \<le> c \<and> c \<le> 8202) \<or> c = 8232 \<or> c = 8233 \<or> c = 8239
     \<or> c = 8287 \<or> c = 12288)"

definition lstrip :: "pystr \<Rightarrow> pystr" where
  "lstrip s = dropWhile isspace s"

definition rstrip :: "pystr \<Rightarrow> pystr" where
  "rstrip s = rev (dropWhile isspace (rev s))"

definition strip :: "pystr \<Rightarrow> pystr" where
  "strip s = rstrip (lstrip s)"

subsection \<open>Decimal and hexadecimal text\<close>

text \<open>\<open>pad w n\<close> is \<open>n\<close> in decimal on \<open>w\<close> digits, zero-padded (\<open>'%0wd'\<close> for
  a value that fits).\<close>

fun pad :: "nat \<Rightarrow> nat \<Rightarrow> pystr" where
  "pad 0 n = []"
| "pad (Suc w) n = pad w (n div 10) @ [48 + n mod 10]"

fun str_nat :: "nat \<Rightarrow> pystr" where
  "str_nat n = (if n < 10 then [48 + n] else str_nat (n div 10) @ [48 + n mod 10])"

definition str_int :: "int \<Rightarrow> pystr" where
  "str_int i = (if i < 0 then 45 # str_nat (nat (- i)) else str_nat (nat i))"

definition is_hex :: "nat \<Rightarrow> bool" where
  "is_hex c = ((48 \<le> c \<and> c \<le> 57) \<or> (65 \<le> c \<and> c \<le> 70) \<or> (97 \<le> c \<and> c \<le> 102))"

definition hex_val :: "nat \<Rightarrow> nat" where
  "hex_val c = (if c \<le> 57 then c - 48 else if c \<le> 70 then c - 55 else c - 87)"

definition hex_digit :: "nat \<Rightarrow> nat" where
  "hex_digit d = (if d < 10 then 48 + d else 87 + d)"

text \<open>
  \<open>bytes.fromhex(s)\<close>: ASCII white space (U+0009..U+000D, U+0020) before a pair of
  digits and at the end is skipped; a pair is two hexadecimal digits next to each other;
  anything else is a \<open>ValueError\<close> (\<open>None\<close>).
\<close>

definition is_ascii_space :: "nat \<Rightarrow> bool" where
  "is_ascii_space c = ((9 \<le> c \<and> c \<le> 13) \<or> c = 32)"

fun fromhex :: "pystr \<Rightarrow> nat list option" where
  "fromhex [] = Some []"
| "fromhex [a] = (if is_ascii_space a then Some [] else None)"
| "fromhex (a # b # r) =
     (if is_ascii_space a then fromhex (b # r)
      else if is_hex a \<and> is_hex b
        then map_option ((#) (16 * hex_val a + hex_val b)) (fromhex r)
        else None)"

fun hexlify :: "nat list \<Rightarrow> pystr" where
  "hexlify [] = []"
| "hexlify (b # bs) = hex_digit (b div 16) # hex_digit (b mod 16) # hexlify bs"

subsection \<open>Exceptions\<close>

text \<open>
  The exceptions the views can meet. \<open>ConnectionFailure\<close> and \<open>OperationFailure\<close> are
  pymongo's, with their message; \<open>AttributeError\<close> names the type and the attribute
  that is missing; \<open>InvalidId\<close> is bson's; \<open>OtherException\<close> stands for any other
  subclass of \<open>Exception\<close> a driver call raises. \<open>KeyboardInterrupt\<close>,
  \<open>SystemExit\<close> and \<open>GeneratorExit\<close> derive from \<open>BaseException\<close> and not from
  \<open>Exception\<close>: a signal handler or the interpreter raises them inside whatever call
  is running.
\<close>

datatype exn =
    ConnectionFailure pystr
  | OperationFailure pystr
  | AttributeError string string
  | KeyError string
  | InvalidId pystr
  | OtherException pystr
  | KeyboardInterrupt
  | SystemExit
  | GeneratorExit

datatype exn_class = CConnectionFailure | COperationFailure | CException

fun isinstance_exn :: "exn \<Rightarrow> exn_class \<Rightarrow> bool" where
  "isinstance_exn KeyboardInterrupt c = False"
| "isinstance_exn SystemExit c = False"
| "isinstance_exn GeneratorExit c = False"
| "isinstance_exn e CException = True"
| "isinstance_exn (ConnectionFailure m) CConnectionFailure = True"
| "isinstance_exn (OperationFailure m) COperationFailure = True"
| "isinstance_exn e c = False"

text \<open>
  \<open>try: ... except A as e: ... except B as e: ...\<close>: a value raised in the body goes
  to the first clause whose class it is an instance of; with no such clause it
  propagates.
\<close>

fun try_except :: "exn + 'a \<Rightarrow> (exn_class \<times> (exn \<Rightarrow> 'a)) list \<Rightarrow> exn + 'a" where
  "try_except (Inr v) hs = Inr v"
| "try_except (Inl e) [] = Inl e"
| "try_except (Inl e) ((cls, h) # hs) =
     (if isinstance_exn e cls then Inr (h e) else try_except (Inl e) hs)"

subsection \<open>ObjectId and datetime\<close>

text \<open>
  \<open>bson.ObjectId\<close>. \<open>ObjectId(s)\<close> on a \<open>str\<close>: a text of 24 characters is
  given to \<open>bytes.fromhex\<close> and the bytes it returns are the identifier (twelve bytes
  for 24 digits, fewer when the text holds white space); \<open>InvalidId\<close> is raised for
  any other length and when \<open>bytes.fromhex\<close> fails. \<open>str(oid)\<close> is the lower-case
  hexadecimal text of the bytes.
\<close>

datatype objectid = ObjectId "nat list"

definition ObjectId_init :: "pystr \<Rightarrow> exn + objectid" where
  "ObjectId_init s =
     (if length s = 24 then
        (case fromhex s of
           Some bs \<Rightarrow> Inr (ObjectId bs)
         | None \<Rightarrow> Inl (InvalidId s))
      else Inl (InvalidId s))"

fun str_objectid :: "objectid \<Rightarrow> pystr" where
  "str_objectid (ObjectId bs) = hexlify bs"

text \<open>A naive \<open>datetime\<close> (no tzinfo), as \<open>datetime.utcnow()\<close> and the driver give.\<close>

record datetime =
  year :: nat
  month :: nat
  day :: nat
  hour :: nat
  minute :: nat
  second :: nat
  microsecond :: nat

text \<open>\<open>datetime.isoformat(sep)\<close> of a naive datetime: \<open>YYYY-MM-DDTHH:MM:SS\<close>, followed
  by \<open>.ffffff\<close> when the microsecond is not zero.\<close>

definition isoformat_sep :: "nat \<Rightarrow> datetime \<Rightarrow> pystr" where
  "isoformat_sep sep d =
     pad 4 (year d) @ [45] @ pad 2 (month d) @ [45] @ pad 2 (day d) @ [sep] @
     pad 2 (hour d) @ [58] @ pad 2 (minute d) @ [58] @ pad 2 (second d) @
     (if microsecond d = 0 then [] else [46] @ pad 6 (microsecond d))"

definition isoformat :: "datetime \<Rightarrow> pystr" where
  "isoformat d = isoformat_sep 84 d"

subsection \<open>Values and documents\<close>

text \<open>The scalar values a todo document holds. A document is a Python \<open>dict\<close>.\<close>

datatype val =
    VNull
  | VBool bool
  | VInt int
  | VStr pystr
  | VObjectId objectid
  | VDatetime datetime

type_synonym doc = "string \<rightharpoonup> val"

text \<open>Python's \<open>str(v)\<close>.\<close>

fun py_str :: "val \<Rightarrow> pystr" where
  "py_str VNull = ascii ''None''"
| "py_str (VBool b) = (if b then ascii ''True'' else ascii ''False'')"
| "py_str (VInt i) = str_int i"
| "py_str (VStr s) = s"
| "py_str (VObjectId oid) = str_objectid oid"
| "py_str (VDatetime d) = isoformat_sep 32 d"

section \<open>The formatter\<close>

text \<open>
  \<open>_format_todo(self, todo)\<close> of both views. \<open>todo\<close> is a document or \<open>None\<close>;
  \<open>not todo\<close> holds for \<open>None\<close> and for the empty dictionary. \<open>dict(todo)\<close> copies
  the document, so the argument is left as it was.
\<close>

definition TodoListView_format_todo :: "doc option \<Rightarrow> doc option" where
  "TodoListView_format_todo todo =
     (case todo of
        None \<Rightarrow> None
      | Some t \<Rightarrow>
          if t = Map.empty then None
          else
            let formatted = t;
                formatted = (case formatted ''_id'' of
                               Some v \<Rightarrow> formatted(''_id'' \<mapsto> VStr (py_str v))
                             | None \<Rightarrow> formatted);
                formatted = (case formatted ''created_at'' of
                               Some (VDatetime d) \<Rightarrow> formatted(''created_at'' \<mapsto> VStr (isoformat d))
                             | _ \<Rightarrow> formatted)
            in Some formatted)"

definition TodoDetailView_format_todo :: "doc option \<Rightarrow> doc option" where
  "TodoDetailView_format_todo todo =
     (case todo of
        None \<Rightarrow> None
      | Some t \<Rightarrow>
          if t = Map.empty then None
          else
            let formatted = t;
                formatted = (case formatted ''_id'' of
                               Some v \<Rightarrow> formatted(''_id'' \<mapsto> VStr (py_str v))
                             | None \<Rightarrow> formatted);
                formatted = (case formatted ''created_at'' of
                               Some (VDatetime d) \<Rightarrow> formatted(''created_at'' \<mapsto> VStr (isoformat d))
                             | _ \<Rightarrow> formatted)
            in Some formatted)"

subsection \<open>The formatter on objects\<close>

text \<open>
  \<open>_format_todo\<close> on objects. The dictionaries live in a heap, a list of dictionaries in
  which an object is its index; \<open>todo\<close> is \<open>None\<close> or a reference. \<open>dict(todo)\<close>
  allocates a new dictionary with the items of \<open>todo\<close>, and the two assignments write
  into the new one. The result is the exception raised or the value returned, and the
  heap afterwards.
\<close>

type_synonym heap = "doc list"

definition TodoListView_format_todo_obj ::
  "nat option \<Rightarrow> heap \<Rightarrow> (exn + nat option) \<times> heap" where
  "TodoListView_format_todo_obj todo h =
     (case todo of
        None \<Rightarrow> (Inr None, h)
      | Some a \<Rightarrow>
          if h ! a = Map.empty then (Inr None, h)
          else
            let formatted = length h;
                h = h @ [h ! a];
                h = (case (h ! formatted) ''_id'' of
                       Some v \<Rightarrow> h[formatted := (h ! formatted)(''_id'' \<mapsto> VStr (py_str v))]
                     | None \<Rightarrow> h);
                h = (case (h ! formatted) ''created_at'' of
                       Some (VDatetime d) \<Rightarrow>
                         h[formatted := (h ! formatted)(''created_at'' \<mapsto> VStr (isoformat d))]
                     | _ \<Rightarrow> h)
            in (Inr (Some formatted), h))"

definition TodoDetailView_format_todo_obj ::
  "nat option \<Rightarrow> heap \<Rightarrow> (exn + nat option) \<times> heap" where
  "TodoDetailView_format_todo_obj todo h =
     (case todo of
        None \<Rightarrow> (Inr None, h)
      | Some a \<Rightarrow>
          if h ! a = Map.empty then (Inr None, h)
          else
            let formatted = length h;
                h = h @ [h ! a];
                h = (case (h ! formatted) ''_id'' of
                       Some v \<Rightarrow> h[formatted := (h ! formatted)(''_id'' \<mapsto> VStr (py_str v))]
                     | None \<Rightarrow> h);
                h = (case (h ! formatted) ''created_at'' of
                       Some (VDatetime d) \<Rightarrow>
                         h[formatted := (h ! formatted)(''created_at'' \<mapsto> VStr (isoformat d))]
                     | _ \<Rightarrow> h)
            in (Inr (Some formatted), h))"

section \<open>The store\<close>

text \<open>
  The collection \<open>db['todos']\<close>: its documents in natural order. The driver calls the
  views make are modelled on the collection: \<open>find_one({'_id': v})\<close>,
  \<open>insert_one(doc)\<close>, \<open>update_one({'_id': v}, {'$set': {k: x}})\<close>,
  \<open>delete_one({'_id': v})\<close> and \<open>find().sort(k, -1)\<close>.
\<close>

type_synonym collection = "doc list"

definition find_one :: "val \<Rightarrow> collection \<Rightarrow> doc option" where
  "find_one v c = find (\<lambda>d. d ''_id'' = Some v) c"

text \<open>BSON keeps a datetime in milliseconds: the microseconds are truncated on the way
  into the store.\<close>

definition bson_datetime :: "datetime \<Rightarrow> datetime" where
  "bson_datetime d = d\<lparr>microsecond := (microsecond d div 1000) * 1000\<rparr>"

fun bson_val :: "val \<Rightarrow> val" where
  "bson_val (VDatetime d) = VDatetime (bson_datetime d)"
| "bson_val v = v"

definition bson_doc :: "doc \<Rightarrow> doc" where
  "bson_doc d = (\<lambda>k. map_option bson_val (d k))"

text \<open>
  \<open>insert_one\<close>: a document without \<open>_id\<close> gets the \<open>ObjectId\<close> the driver
  generates (\<open>new_id\<close>); an \<open>_id\<close> already in the collection is a duplicate key
  error, a subclass of \<open>OperationFailure\<close>. The result is \<open>inserted_id\<close>.
\<close>

definition insert_one :: "objectid \<Rightarrow> doc \<Rightarrow> collection \<Rightarrow> (exn + val) \<times> collection" where
  "insert_one new_id document c =
     (let inserted_id = (case document ''_id'' of Some v \<Rightarrow> v | None \<Rightarrow> VObjectId new_id);
          document = document(''_id'' \<mapsto> inserted_id)
      in if find_one inserted_id c \<noteq> None
         then (Inl (OperationFailure (ascii ''E11000 duplicate key error'')), c)
         else (Inr inserted_id, c @ [bson_doc document]))"

text \<open>\<open>update_one\<close> with \<open>$set\<close>: the first matching document gets the field; the
  result is \<open>matched_count\<close>.\<close>

fun update_set :: "val \<Rightarrow> string \<Rightarrow> val \<Rightarrow> collection \<Rightarrow> collection" where
  "update_set v k x [] = []"
| "update_set v k x (d # c) =
     (if d ''_id'' = Some v then d(k \<mapsto> bson_val x) # c else d # update_set v k x c)"

definition update_one :: "val \<Rightarrow> string \<Rightarrow> val \<Rightarrow> collection \<Rightarrow> (exn + nat) \<times> collection" where
  "update_one v k x c =
     (Inr (if find_one v c = None then 0 else 1), update_set v k x c)"

text \<open>\<open>delete_one\<close>: the first matching document is removed; the result is
  \<open>deleted_count\<close>.\<close>

fun delete_first :: "val \<Rightarrow> collection \<Rightarrow> collection" where
  "delete_first v [] = []"
| "delete_first v (d # c) = (if d ''_id'' = Some v then c else d # delete_first v c)"

definition delete_one :: "val \<Rightarrow> collection \<Rightarrow> (exn + nat) \<times> collection" where
  "delete_one v c =
     (Inr (if find_one v c = None then 0 else 1), delete_first v c)"

text \<open>
  The order of \<open>sort\<close>: BSON compares values of different types by type (null and a
  missing field first, then numbers, strings, ObjectId, booleans, dates) and values of
  one type by value. The store does not say in which order documents of equal key come;
  \<open>find_sort_desc\<close> leaves them in natural order, and what is proved of the listing
  does not depend on that.
\<close>

definition bson_key :: "val option \<Rightarrow> nat \<times> int \<times> nat list" where
  "bson_key v =
     (case v of
        None \<Rightarrow> (2, 0, [])
      | Some VNull \<Rightarrow> (2, 0, [])
      | Some (VInt i) \<Rightarrow> (3, i, [])
      | Some (VStr s) \<Rightarrow> (4, 0, s)
      | Some (VObjectId (ObjectId bs)) \<Rightarrow> (8, 0, bs)
      | Some (VBool b) \<Rightarrow> (9, if b then 1 else 0, [])
      | Some (VDatetime d) \<Rightarrow>
          (10, 0, [year d, month d, day d, hour d, minute d, second d, microsecond d]))"

definition find_sort_desc :: "string \<Rightarrow> collection \<Rightarrow> doc list" where
  "find_sort_desc k c = rev (sort_key (\<lambda>d. bson_key (d k)) (rev c))"

subsection \<open>The environment of a driver call\<close>

text \<open>
  The handle \<open>db\<close> is shared. Between two calls of a view other clients may change the
  collection (\<open>interfere\<close>), and a call may raise instead of running (\<open>fault\<close>: the
  connection, the server, or the encoding of the arguments).
\<close>

record env_step =
  interfere :: "collection \<Rightarrow> collection"
  fault :: "exn option"

definition store_call ::
  "env_step \<Rightarrow> (collection \<Rightarrow> (exn + 'a) \<times> collection) \<Rightarrow> collection \<Rightarrow> (exn + 'a) \<times> collection" where
  "store_call e operation c =
     (let c1 = interfere e c
      in case fault e of Some x \<Rightarrow> (Inl x, c1) | None \<Rightarrow> operation c1)"

definition quiet :: env_step where
  "quiet = \<lparr>interfere = (\<lambda>c. c), fault = None\<rparr>"

section \<open>Requests and responses\<close>

text \<open>\<open>request.data\<close>: the parsed body.\<close>

datatype json =
    JNull
  | JBool bool
  | JInt int
  | JStr pystr
  | JList "json list"
  | JDict "(string \<times> json) list"

fun type_name :: "json \<Rightarrow> string" where
  "type_name JNull = ''NoneType''"
| "type_name (JBool b) = ''bool''"
| "type_name (JInt i) = ''int''"
| "type_name (JStr s) = ''str''"
| "type_name (JList xs) = ''list''"
| "type_name (JDict kvs) = ''dict''"

text \<open>\<open>d.get(k, default)\<close> and \<open>v.strip()\<close> on a parsed value: only a dictionary
  has \<open>get\<close>, only a string has \<open>strip\<close>.\<close>

definition data_get :: "json \<Rightarrow> string \<Rightarrow> json \<Rightarrow> exn + json" where
  "data_get d k dflt =
     (case d of
        JDict kvs \<Rightarrow> Inr (case map_of kvs k of Some v \<Rightarrow> v | None \<Rightarrow> dflt)
      | _ \<Rightarrow> Inl (AttributeError (type_name d) ''get''))"

definition json_strip :: "json \<Rightarrow> exn + pystr" where
  "json_strip v =
     (case v of
        JStr s \<Rightarrow> Inr (strip s)
      | _ \<Rightarrow> Inl (AttributeError (type_name v) ''strip''))"

definition get_description :: "json \<Rightarrow> exn + pystr" where
  "get_description request_data =
     (case data_get request_data ''description'' (JStr []) of
        Inl x \<Rightarrow> Inl x
      | Inr v \<Rightarrow> json_strip v)"

text \<open>A \<open>Response\<close>: the status and the keys of the body (a key the body lacks is
  \<open>None\<close>).\<close>

datatype payload = Todos "doc list" | Todo "doc option"

record response =
  status :: nat
  success :: bool
  data :: "payload option"
  count :: "nat option"
  message :: "string option"
  error :: "string option"

definition error_response :: "nat \<Rightarrow> string \<Rightarrow> response" where
  "error_response st msg =
     \<lparr>status = st, success = False, data = None, count = None, message = None,
      error = Some msg\<rparr>"

definition HTTP_200_OK :: nat where "HTTP_200_OK = 200"
definition HTTP_201_CREATED :: nat where "HTTP_201_CREATED = 201"
definition HTTP_400_BAD_REQUEST :: nat where "HTTP_400_BAD_REQUEST = 400"
definition HTTP_404_NOT_FOUND :: nat where "HTTP_404_NOT_FOUND = 404"
definition HTTP_500_INTERNAL_SERVER_ERROR :: nat where "HTTP_500_INTERNAL_SERVER_ERROR = 500"
definition HTTP_503_SERVICE_UNAVAILABLE :: nat where "HTTP_503_SERVICE_UNAVAILABLE = 503"

definition MAX_DESCRIPTION_LENGTH :: nat where
  "MAX_DESCRIPTION_LENGTH = 500"

section \<open>TodoListView\<close>

text \<open>
  \<open>get\<close>: the body of the \<open>try\<close>. The loop formats every document of the cursor
  in place; \<open>todo['_id']\<close> raises \<open>KeyError\<close> on a document without the key.
\<close>

fun get_loop :: "doc list \<Rightarrow> doc list \<Rightarrow> exn + doc list" where
  "get_loop [] todos = Inr todos"
| "get_loop (todo # todos_cursor) todos =
     (case todo ''_id'' of
        None \<Rightarrow> Inl (KeyError ''_id'')
      | Some v \<Rightarrow>
          let todo = todo(''_id'' \<mapsto> VStr (py_str v));
              todo = (case todo ''created_at'' of
                        Some (VDatetime d) \<Rightarrow> todo(''created_at'' \<mapsto> VStr (isoformat d))
                      | _ \<Rightarrow> todo)
          in get_loop todos_cursor (todos @ [todo]))"

definition get_try :: "env_step \<Rightarrow> collection \<Rightarrow> (exn + response) \<times> collection" where
  "get_try e1 c =
     (case store_call e1 (\<lambda>c. (Inr (find_sort_desc ''created_at'' c), c)) c of
        (Inl x, c1) \<Rightarrow> (Inl x, c1)
      | (Inr todos_cursor, c1) \<Rightarrow>
          (case get_loop todos_cursor [] of
             Inl x \<Rightarrow> (Inl x, c1)
           | Inr todos \<Rightarrow>
               (Inr \<lparr>status = HTTP_200_OK, success = True, data = Some (Todos todos),
                     count = Some (length todos), message = None, error = None\<rparr>, c1)))"

definition TodoListView_get :: "env_step \<Rightarrow> collection \<Rightarrow> (exn + response) \<times> collection" where
  "TodoListView_get e1 c =
     (case get_try e1 c of
        (r, c1) \<Rightarrow>
          (try_except r
             [(CConnectionFailure, \<lambda>e. error_response HTTP_503_SERVICE_UNAVAILABLE
                 ''Database connection failed. Please try again later.''),
              (CException, \<lambda>e. error_response HTTP_500_INTERNAL_SERVER_ERROR
                 ''An unexpected error occurred while retrieving todos.'')], c1))"

text \<open>
  \<open>post\<close>: \<open>now\<close> is the value of \<open>datetime.utcnow()\<close>, \<open>new_id\<close> the identifier
  the driver generates for the inserted document; \<open>e1\<close> and \<open>e2\<close> are the
  environments of \<open>insert_one\<close> and \<open>find_one\<close>.
\<close>

definition todo_doc :: "pystr \<Rightarrow> datetime \<Rightarrow> doc" where
  "todo_doc description now =
     [''description'' \<mapsto> VStr description,
      ''created_at'' \<mapsto> VDatetime now,
      ''completed'' \<mapsto> VBool False]"

definition post_try ::
  "json \<Rightarrow> datetime \<Rightarrow> objectid \<Rightarrow> env_step \<Rightarrow> env_step \<Rightarrow> collection
     \<Rightarrow> (exn + response) \<times> collection" where
  "post_try request_data now new_id e1 e2 c =
     (case get_description request_data of
        Inl x \<Rightarrow> (Inl x, c)
      | Inr description \<Rightarrow>
          if description = [] then
            (Inr (error_response HTTP_400_BAD_REQUEST
                    ''Description is required and cannot be empty.''), c)
          else if length description > MAX_DESCRIPTION_LENGTH then
            (Inr (error_response HTTP_400_BAD_REQUEST
                    ''Description cannot exceed 500 characters.''), c)
          else
            (case store_call e1 (insert_one new_id (todo_doc description now)) c of
                  (Inl x, c1) \<Rightarrow> (Inl x, c1)
                | (Inr inserted_id, c1) \<Rightarrow>
                    (case store_call e2 (\<lambda>c. (Inr (find_one inserted_id c), c)) c1 of
                       (Inl x, c2) \<Rightarrow> (Inl x, c2)
                     | (Inr created_todo, c2) \<Rightarrow>
                         (Inr \<lparr>status = HTTP_201_CREATED, success = True,
                               data = Some (Todo (TodoListView_format_todo created_todo)),
                               count = None, message = Some ''Todo created successfully'',
                               error = None\<rparr>, c2))))"

definition TodoListView_post ::
  "json \<Rightarrow> datetime \<Rightarrow> objectid \<Rightarrow> env_step \<Rightarrow> env_step \<Rightarrow> collection
     \<Rightarrow> (exn + response) \<times> collection" where
  "TodoListView_post request_data now new_id e1 e2 c =
     (case post_try request_data now new_id e1 e2 c of
        (r, c1) \<Rightarrow>
          (try_except r
             [(CConnectionFailure, \<lambda>e. error_response HTTP_503_SERVICE_UNAVAILABLE
                 ''Database connection failed. Please try again later.''),
              (COperationFailure, \<lambda>e. error_response HTTP_500_INTERNAL_SERVER_ERROR
                 ''Database operation failed. Please try again.''),
              (CException, \<lambda>e. error_response HTTP_500_INTERNAL_SERVER_ERROR
                 ''An unexpected error occurred while creating the todo.'')], c1))"

section \<open>TodoDetailView\<close>

text \<open>\<open>not existing_todo\<close>: \<open>None\<close> or an empty dictionary.\<close>

definition falsy :: "doc option \<Rightarrow> bool" where
  "falsy t = (case t of None \<Rightarrow> True | Some d \<Rightarrow> d = Map.empty)"

text \<open>
  \<open>put\<close>: \<open>e1\<close>, \<open>e2\<close> and \<open>e3\<close> are the environments of the first
  \<open>find_one\<close>, of \<open>update_one\<close> and of the second \<open>find_one\<close>. The inner
  \<open>try\<close> turns any exception of \<open>ObjectId(todo_id)\<close> into the 400 response.
\<close>

definition put_try ::
  "json \<Rightarrow> pystr \<Rightarrow> env_step \<Rightarrow> env_step \<Rightarrow> env_step \<Rightarrow> collection
     \<Rightarrow> (exn + response) \<times> collection" where
  "put_try request_data todo_id e1 e2 e3 c =
     (case ObjectId_init todo_id of
        Inl x \<Rightarrow> (Inr (error_response HTTP_400_BAD_REQUEST ''Invalid todo ID format.''), c)
      | Inr object_id \<Rightarrow>
          (case get_description request_data of
             Inl x \<Rightarrow> (Inl x, c)
           | Inr description \<Rightarrow>
               if description = [] then
                 (Inr (error_response HTTP_400_BAD_REQUEST
                         ''Description is required and cannot be empty.''), c)
               else if length description > MAX_DESCRIPTION_LENGTH then
                 (Inr (error_response HTTP_400_BAD_REQUEST
                         ''Description cannot exceed 500 characters.''), c)
               else
                 (case store_call e1 (\<lambda>c. (Inr (find_one (VObjectId object_id) c), c)) c of
                    (Inl x, c1) \<Rightarrow> (Inl x, c1)
                  | (Inr existing_todo, c1) \<Rightarrow>
                      if falsy existing_todo then
                        (Inr (error_response HTTP_404_NOT_FOUND ''Todo not found.''), c1)
                      else
                        (case store_call e2
                               (update_one (VObjectId object_id) ''description'' (VStr description))
                               c1 of
                           (Inl x, c2) \<Rightarrow> (Inl x, c2)
                         | (Inr update_result, c2) \<Rightarrow>
                             (case store_call e3
                                     (\<lambda>c. (Inr (find_one (VObjectId object_id) c), c)) c2 of
                                (Inl x, c3) \<Rightarrow> (Inl x, c3)
                              | (Inr updated_todo, c3) \<Rightarrow>
                                  (Inr \<lparr>status = HTTP_200_OK, success = True,
                                        data = Some (Todo (TodoDetailView_format_todo updated_todo)),
                                        count = None,
                                        message = Some ''Todo updated successfully'',
                                        error = None\<rparr>, c3))))))"

definition TodoDetailView_put ::
  "json \<Rightarrow> pystr \<Rightarrow> env_step \<Rightarrow> env_step \<Rightarrow> env_step \<Rightarrow> collection
     \<Rightarrow> (exn + response) \<times> collection" where
  "TodoDetailView_put request_data todo_id e1 e2 e3 c =
     (case put_try request_data todo_id e1 e2 e3 c of
        (r, c1) \<Rightarrow>
          (try_except r
             [(CConnectionFailure, \<lambda>e. error_response HTTP_503_SERVICE_UNAVAILABLE
                 ''Database connection failed. Please try again later.''),
              (COperationFailure, \<lambda>e. error_response HTTP_500_INTERNAL_SERVER_ERROR
                 ''Database operation failed. Please try again.''),
              (CException, \<lambda>e. error_response HTTP_500_INTERNAL_SERVER_ERROR
                 ''An unexpected error occurred while updating the todo.'')], c1))"

text \<open>\<open>delete\<close>: \<open>e1\<close> and \<open>e2\<close> are the environments of \<open>find_one\<close> and
  \<open>delete_one\<close>.\<close>

definition delete_try ::
  "pystr \<Rightarrow> env_step \<Rightarrow> env_step \<Rightarrow> collection \<Rightarrow> (exn + response) \<times> collection" where
  "delete_try todo_id e1 e2 c =
     (case ObjectId_init todo_id of
        Inl x \<Rightarrow> (Inr (error_response HTTP_400_BAD_REQUEST ''Invalid todo ID format.''), c)
      | Inr object_id \<Rightarrow>
          (case store_call e1 (\<lambda>c. (Inr (find_one (VObjectId object_id) c), c)) c of
             (Inl x, c1) \<Rightarrow> (Inl x, c1)
           | (Inr existing_todo, c1) \<Rightarrow>
               if falsy existing_todo then
                 (Inr (error_response HTTP_404_NOT_FOUND ''Todo not found.''), c1)
               else
                 (case store_call e2 (delete_one (VObjectId object_id)) c1 of
                    (Inl x, c2) \<Rightarrow> (Inl x, c2)
                  | (Inr deleted_count, c2) \<Rightarrow>
                      if deleted_count = 0 then
                        (Inr (error_response HTTP_500_INTERNAL_SERVER_ERROR
                                ''Failed to delete todo.''), c2)
                      else
                        (Inr \<lparr>status = HTTP_200_OK, success = True, data = None,
                              count = None, message = Some ''Todo deleted successfully'',
                              error = None\<rparr>, c2))))"

definition TodoDetailView_delete ::
  "pystr \<Rightarrow> env_step \<Rightarrow> env_step \<Rightarrow> collection \<Rightarrow> (exn + response) \<times> collection" where
  "TodoDetailView_delete todo_id e1 e2 c =
     (case delete_try todo_id e1 e2 c of
        (r, c1) \<Rightarrow>
          (try_except r
             [(CConnectionFailure, \<lambda>e. error_response HTTP_503_SERVICE_UNAVAILABLE
                 ''Database connection failed. Please try again later.''),
              (COperationFailure, \<lambda>e. error_response HTTP_500_INTERNAL_SERVER_ERROR
                 ''Database operation failed. Please try again.''),
              (CException, \<lambda>e. error_response HTTP_500_INTERNAL_SERVER_ERROR
                 ''An unexpected error occurred while deleting the todo.'')], c1))"

text \<open>The document \<open>insert_one\<close> stores for \<open>todo_doc\<close> under the identifier
  \<open>new_id\<close>.\<close>

definition stored_doc :: "pystr \<Rightarrow> datetime \<Rightarrow> objectid \<Rightarrow> doc" where
  "stored_doc desc now new_id = bson_doc ((todo_doc desc now)(''_id'' \<mapsto> VObjectId new_id))"

text \<open>A stored todo, for concrete runs.\<close>

definition example_oid :: objectid where
  "example_oid = ObjectId [1, 2, 3, 4, 5, 6, 7, 8, 9, 10, 11, 255]"

definition example_doc :: doc where
  "example_doc = [''_id'' \<mapsto> VObjectId example_oid,
               ''description'' \<mapsto> VStr [98, 117, 121],
               ''created_at'' \<mapsto> VDatetime \<lparr>year = 2024, month = 1, day = 2, hour = 3,
                   minute = 4, second = 5, microsecond = 6000\<rparr>,
               ''completed'' \<mapsto> VBool False]"

text \<open>The unique index of the collection on \<open>_id\<close>.\<close>

definition unique_ids :: "collection \<Rightarrow> bool" where
  "unique_ids c = distinct (map (\<lambda>d. d ''_id'') c)"

text \<open>The text of the identifier of \<open>example_doc\<close>, and a short description.\<close>

definition example_id :: pystr where
  "example_id = ascii ''0102030405060708090a0bff''"

definition buy_milk :: pystr where
  "buy_milk = ascii ''buy milk''"

text \<open>The failure responses: the envelope with one of the four error statuses.\<close>

definition error_envelope :: "response \<Rightarrow> bool" where
  "error_envelope r =
     (\<exists>msg. r = error_response 400 msg \<or> r = error_response 404 msg
        \<or> r = error_response 500 msg \<or> r = error_response 503 msg)"

text \<open>A driver call that raises \<open>x\<close>, and a value of \<open>datetime.utcnow()\<close>.\<close>

definition failing :: "exn \<Rightarrow> env_step" where
  "failing x = \<lparr>interfere = (\<lambda>c. c), fault = Some x\<rparr>"

definition example_now :: datetime where
  "example_now = \<lparr>year = 2024, month = 2, day = 29, hour = 23, minute = 59, second = 58,
                   microsecond = 123456\<rparr>"

text \<open>A second stored todo, of another identifier.\<close>

definition other_doc :: doc where
  "other_doc = [''_id'' \<mapsto> VObjectId (ObjectId [9, 9, 9, 9, 9, 9, 9, 9, 9, 9, 9, 9]),
                ''description'' \<mapsto> VStr [119, 97, 108, 107],
                ''created_at'' \<mapsto> VDatetime \<lparr>year = 2023, month = 12, day = 31, hour = 0,
                   minute = 0, second = 0, microsecond = 0\<rparr>,
                ''completed'' \<mapsto> VBool True]"

text \<open>
  The invariant of the data model: the description of a stored document is a string that
  is not empty, not made of white space only, and of at most 500 characters after
  trimming.
\<close>

definition description_ok :: "doc \<Rightarrow> bool" where
  "description_ok d =
     (case d ''description'' of
        Some (VStr s) \<Rightarrow> s \<noteq> [] \<and> \<not> list_all isspace s \<and> length (strip s) \<le> 500
      | _ \<Rightarrow> False)"

definition collection_ok :: "collection \<Rightarrow> bool" where
  "collection_ok c = list_all description_ok c"

text \<open>
  What the other clients may do between two driver calls of a request, for the invariant
  to be theirs as well: they keep it.
\<close>

definition keeps :: "env_step \<Rightarrow> bool" where
  "keeps e = (\<forall>s. collection_ok s \<longrightarrow> collection_ok (interfere e s))"

text \<open>A request to one of the four operations, with the environment of its driver calls,
  and the collection after a sequence of requests.\<close>

datatype request =
    ReqGet env_step
  | ReqPost json datetime objectid env_step env_step
  | ReqPut json pystr env_step env_step env_step
  | ReqDelete pystr env_step env_step

fun serve :: "request \<Rightarrow> collection \<Rightarrow> (exn + response) \<times> collection" where
  "serve (ReqGet e1) c = TodoListView_get e1 c"
| "serve (ReqPost rd now new_id e1 e2) c = TodoListView_post rd now new_id e1 e2 c"
| "serve (ReqPut rd todo_id e1 e2 e3) c = TodoDetailView_put rd todo_id e1 e2 e3 c"
| "serve (ReqDelete todo_id e1 e2) c = TodoDetailView_delete todo_id e1 e2 c"

fun serve_all :: "request list \<Rightarrow> collection \<Rightarrow> collection" where
  "serve_all [] c = c"
| "serve_all (q # qs) c = serve_all qs (snd (serve q c))"

fun polite :: "request \<Rightarrow> bool" where
  "polite (ReqGet e1) = keeps e1"
| "polite (ReqPost rd now new_id e1 e2) = (keeps e1 \<and> keeps e2)"
| "polite (ReqPut rd todo_id e1 e2 e3) = (keeps e1 \<and> keeps e2 \<and> keeps e3)"
| "polite (ReqDelete todo_id e1 e2) = (keeps e1 \<and> keeps e2)"

text \<open>
  The taxonomy of the failures, as the spec words it: a connection failure is answered
  503, an operation failure 500, any other \<open>Exception\<close> 500 with the generic text of
  the operation: each with a fixed text, whatever the message of the exception. What
  derives from \<open>BaseException\<close> only is not answered: it leaves the view.
  \<open>get\<close> has no clause for \<open>OperationFailure\<close> and answers it with its generic text.
\<close>

definition answer_raised :: "string \<Rightarrow> exn \<Rightarrow> exn + response" where
  "answer_raised generic x =
     (case x of
        ConnectionFailure m \<Rightarrow>
          Inr (error_response 503 ''Database connection failed. Please try again later.'')
      | OperationFailure m \<Rightarrow>
          Inr (error_response 500 ''Database operation failed. Please try again.'')
      | KeyboardInterrupt \<Rightarrow> Inl KeyboardInterrupt
      | SystemExit \<Rightarrow> Inl SystemExit
      | GeneratorExit \<Rightarrow> Inl GeneratorExit
      | _ \<Rightarrow> Inr (error_response 500 generic))"

definition answer_raised_get :: "exn \<Rightarrow> exn + response" where
  "answer_raised_get x =
     (case x of
        ConnectionFailure m \<Rightarrow>
          Inr (error_response 503 ''Database connection failed. Please try again later.'')
      | KeyboardInterrupt \<Rightarrow> Inl KeyboardInterrupt
      | SystemExit \<Rightarrow> Inl SystemExit
      | GeneratorExit \<Rightarrow> Inl GeneratorExit
      | _ \<Rightarrow> Inr (error_response 500 ''An unexpected error occurred while retrieving todos.''))"

text \<open>The exceptions that \<open>except Exception\<close> does not catch.\<close>

definition base_only :: "exn \<Rightarrow> bool" where
  "base_only x = (x = KeyboardInterrupt \<or> x = SystemExit \<or> x = GeneratorExit)"

text \<open>An id of 24 characters that \<open>bytes.fromhex\<close> accepts though two of them are
  spaces: eleven bytes.\<close>

definition spaced_id :: pystr where
  "spaced_id = ascii ''0102030405060708090a0b  ''"

definition spaced_oid :: objectid where
  "spaced_oid = ObjectId [1, 2, 3, 4, 5, 6, 7, 8, 9, 10, 11]"










section \<open>Properties of strip\<close>

lemma dropWhile_all_Nil: "(\<forall>x\<in>set (dropWhile P s). P x) \<longleftrightarrow> dropWhile P s = []"
proof
  assume a: "\<forall>x\<in>set (dropWhile P s). P x"
  show "dropWhile P s = []"
  proof (rule ccontr)
    assume n: "dropWhile P s \<noteq> []"
    then have "\<not> P (hd (dropWhile P s))" by (rule hd_dropWhile)
    moreover have "hd (dropWhile P s) \<in> set (dropWhile P s)" using n by (rule hd_in_set)
    ultimately show False using a by blast
  qed
next
  assume "dropWhile P s = []"
  then show "\<forall>x\<in>set (dropWhile P s). P x" by (simp only: set_empty2[symmetric] list.set ball_empty)
qed

lemma strip_eq_Nil_iff: "strip s = [] \<longleftrightarrow> list_all isspace s"
proof -
  have "strip s = [] \<longleftrightarrow> (\<forall>x\<in>set (dropWhile isspace s). isspace x)"
    by (simp add: strip_def rstrip_def lstrip_def)
  also have "\<dots> \<longleftrightarrow> dropWhile isspace s = []" by (rule dropWhile_all_Nil)
  also have "\<dots> \<longleftrightarrow> list_all isspace s" by (simp add: list_all_iff)
  finally show ?thesis .
qed

lemma strip_hd: assumes a: "strip s \<noteq> []" shows "\<not> isspace (hd (strip s))"
proof -
  define l where "l = dropWhile isspace s"
  define r where "r = dropWhile isspace (rev l)"
  have st: "strip s = rev r" by (simp add: strip_def rstrip_def lstrip_def l_def r_def)
  have r: "r \<noteq> []" using a st by simp
  have l: "l \<noteq> []" using r unfolding r_def by auto
  have "rev l = takeWhile isspace (rev l) @ r" unfolding r_def by simp
  then have "l = rev r @ rev (takeWhile isspace (rev l))"
    by (metis rev_append rev_rev_ident)
  then have "hd l = hd (rev r)" using r by (metis hd_append2 rev_is_Nil_conv)
  moreover have "\<not> isspace (hd l)" using l unfolding l_def by (rule hd_dropWhile)
  ultimately show ?thesis using st by simp
qed

lemma strip_last: assumes a: "strip s \<noteq> []" shows "\<not> isspace (last (strip s))"
proof -
  define l where "l = dropWhile isspace s"
  define r where "r = dropWhile isspace (rev l)"
  have st: "strip s = rev r" by (simp add: strip_def rstrip_def lstrip_def l_def r_def)
  have r: "r \<noteq> []" using a st by simp
  have "last (rev r) = hd r" using r by (simp add: last_rev)
  moreover have "\<not> isspace (hd r)" using r unfolding r_def by (rule hd_dropWhile)
  ultimately show ?thesis using st by simp
qed

lemma strip_fixed:
  assumes "s \<noteq> []" "\<not> isspace (hd s)" "\<not> isspace (last s)" shows "strip s = s"
proof -
  have 1: "dropWhile isspace s = s" using assms by (cases s) auto
  have "rev s \<noteq> []" "hd (rev s) = last s" using assms by (simp_all add: hd_rev)
  then obtain y ys where ys: "rev s = y # ys" "y = last s" by (cases "rev s") auto
  have 2: "dropWhile isspace (rev s) = rev s" unfolding ys(1) using ys(2) assms(3) by simp
  show ?thesis by (simp only: strip_def rstrip_def lstrip_def 1 2 rev_rev_ident)
qed

lemma strip_idem: "strip (strip s) = strip s"
proof (cases "strip s = []")
  case True
  have "strip [] = []" by (simp add: strip_def rstrip_def lstrip_def)
  then show ?thesis using True by simp
next
  case False then show ?thesis by (simp add: strip_fixed strip_hd strip_last)
qed

lemma length_strip: "length (strip s) \<le> length s"
proof -
  have "length (dropWhile isspace (rev (dropWhile isspace s))) \<le> length (rev (dropWhile isspace s))"
    by (rule length_dropWhile_le)
  also have "\<dots> \<le> length s" by (simp add: length_dropWhile_le)
  finally show ?thesis by (simp add: strip_def rstrip_def lstrip_def)
qed

lemma strip_replicate: assumes "\<not> isspace x" shows "strip (replicate n x) = replicate n x"
proof (cases n)
  case 0 then show ?thesis by (simp add: strip_def rstrip_def lstrip_def)
next
  case (Suc m)
  have "replicate n x \<noteq> []" "hd (replicate n x) = x" "last (replicate n x) = x"
    using Suc by simp_all
  then show ?thesis using assms strip_fixed[of "replicate n x"] by simp
qed

section \<open>Creating a todo\<close>

lemmas http_defs = HTTP_200_OK_def HTTP_201_CREATED_def HTTP_400_BAD_REQUEST_def
  HTTP_404_NOT_FOUND_def HTTP_500_INTERNAL_SERVER_ERROR_def HTTP_503_SERVICE_UNAVAILABLE_def

lemma get_description_str:
  "map_of kvs ''description'' = Some (JStr d) \<Longrightarrow> get_description (JDict kvs) = Inr (strip d)"
  by (simp add: get_description_def data_get_def json_strip_def)

lemma post_try_empty:
  "get_description rd = Inr [] \<Longrightarrow>
   post_try rd now new_id e1 e2 c =
     (Inr (error_response 400 ''Description is required and cannot be empty.''), c)"
  by (simp add: post_try_def http_defs)

lemma post_try_long:
  "get_description rd = Inr desc \<Longrightarrow> 500 < length desc \<Longrightarrow>
   post_try rd now new_id e1 e2 c =
     (Inr (error_response 400 ''Description cannot exceed 500 characters.''), c)"
  by (auto simp add: post_try_def http_defs MAX_DESCRIPTION_LENGTH_def)

lemma insert_one_fresh:
  "find_one (VObjectId new_id) c = None \<Longrightarrow>
   insert_one new_id (todo_doc desc now) c = (Inr (VObjectId new_id), c @ [stored_doc desc now new_id])"
  by (simp add: insert_one_def todo_doc_def stored_doc_def Let_def)

lemma post_try_ok:
  assumes "get_description rd = Inr desc" "desc \<noteq> []" "length desc \<le> 500"
    "fault e1 = None" "fault e2 = None" "find_one (VObjectId new_id) (interfere e1 c) = None"
  shows "post_try rd now new_id e1 e2 c =
     (Inr \<lparr>status = 201, success = True,
           data = Some (Todo (TodoListView_format_todo (find_one (VObjectId new_id)
                    (interfere e2 (interfere e1 c @ [stored_doc desc now new_id]))))),
           count = None, message = Some ''Todo created successfully'', error = None\<rparr>,
      interfere e2 (interfere e1 c @ [stored_doc desc now new_id]))"
  using assms
  by (simp add: post_try_def http_defs MAX_DESCRIPTION_LENGTH_def store_call_def insert_one_fresh Let_def)

lemma post_Inr: "post_try rd now new_id e1 e2 c = (Inr r, c') \<Longrightarrow>
   TodoListView_post rd now new_id e1 e2 c = (Inr r, c')"
  by (simp add: TodoListView_post_def)

text \<open>
  C1. \<open>create(description)\<close>: the description is trimmed first; an empty result is
  answered 400 ("required"), a trimmed length above 500 is answered 400 ("cannot
  exceed"), and a trimmed length from 1 to 500 (500 included) is answered 201 when the
  two driver calls do not raise and the generated identifier is not in the collection.
\<close>

theorem create_validation:
  assumes "map_of kvs ''description'' = Some (JStr d)"
  shows "(strip d = [] \<longrightarrow>
            TodoListView_post (JDict kvs) now new_id e1 e2 c =
              (Inr (error_response 400 ''Description is required and cannot be empty.''), c))
       \<and> (500 < length (strip d) \<longrightarrow>
            TodoListView_post (JDict kvs) now new_id e1 e2 c =
              (Inr (error_response 400 ''Description cannot exceed 500 characters.''), c))
       \<and> (strip d \<noteq> [] \<and> length (strip d) \<le> 500 \<and> fault e1 = None \<and> fault e2 = None
            \<and> find_one (VObjectId new_id) (interfere e1 c) = None \<longrightarrow>
            (\<exists>r c'. TodoListView_post (JDict kvs) now new_id e1 e2 c = (Inr r, c')
                \<and> status r = 201 \<and> success r \<and> error r = None))"
proof (intro conjI impI)
  note g = get_description_str[OF assms]
  { assume "strip d = []"
    then show "TodoListView_post (JDict kvs) now new_id e1 e2 c =
              (Inr (error_response 400 ''Description is required and cannot be empty.''), c)"
      using g by (simp add: post_Inr post_try_empty) }
  { assume "500 < length (strip d)"
    then show "TodoListView_post (JDict kvs) now new_id e1 e2 c =
              (Inr (error_response 400 ''Description cannot exceed 500 characters.''), c)"
      using g by (simp add: post_Inr post_try_long) }
  { assume a: "strip d \<noteq> [] \<and> length (strip d) \<le> 500 \<and> fault e1 = None \<and> fault e2 = None
            \<and> find_one (VObjectId new_id) (interfere e1 c) = None"
    show "\<exists>r c'. TodoListView_post (JDict kvs) now new_id e1 e2 c = (Inr r, c')
                \<and> status r = 201 \<and> success r \<and> error r = None"
      using post_Inr[OF post_try_ok[OF g, of e1 e2 new_id c now]] a by simp }
qed

lemma quiet_simps: "fault quiet = None" "interfere quiet c = c"
  by (simp_all add: quiet_def)

theorem create_validation_witness:
  "TodoListView_post (JDict [(''description'', JStr [])])
      \<lparr>year = 2024, month = 1, day = 2, hour = 3, minute = 4, second = 5, microsecond = 6789\<rparr>
      (ObjectId [1,2,3,4,5,6,7,8,9,10,11,12]) quiet quiet []
     = (Inr (error_response 400 ''Description is required and cannot be empty.''), [])
   \<and> TodoListView_post (JDict [(''description'', JStr [32, 32, 32])])
      \<lparr>year = 2024, month = 1, day = 2, hour = 3, minute = 4, second = 5, microsecond = 6789\<rparr>
      (ObjectId [1,2,3,4,5,6,7,8,9,10,11,12]) quiet quiet []
     = (Inr (error_response 400 ''Description is required and cannot be empty.''), [])
   \<and> TodoListView_post (JDict [(''description'', JStr (replicate 501 97))])
      \<lparr>year = 2024, month = 1, day = 2, hour = 3, minute = 4, second = 5, microsecond = 6789\<rparr>
      (ObjectId [1,2,3,4,5,6,7,8,9,10,11,12]) quiet quiet []
     = (Inr (error_response 400 ''Description cannot exceed 500 characters.''), [])
   \<and> (\<exists>r c'. TodoListView_post (JDict [(''description'', JStr (replicate 500 97))])
      \<lparr>year = 2024, month = 1, day = 2, hour = 3, minute = 4, second = 5, microsecond = 6789\<rparr>
      (ObjectId [1,2,3,4,5,6,7,8,9,10,11,12]) quiet quiet [] = (Inr r, c')
        \<and> status r = 201 \<and> success r \<and> error r = None)"
proof -
  have ns: "\<not> isspace 97" by (simp add: isspace_def)
  have s0: "strip [] = []" "strip [32, 32, 32] = []"
    by (simp_all add: strip_def rstrip_def lstrip_def isspace_def)
  have f: "find_one v [] = None" for v by (simp add: find_one_def)
  show ?thesis
    using create_validation[where kvs="[(''description'', JStr [])]" and d="[]"]
      create_validation[where kvs="[(''description'', JStr [32, 32, 32])]" and d="[32, 32, 32]"]
      create_validation[where kvs="[(''description'', JStr (replicate 501 97))]" and d="replicate 501 97"]
      create_validation[where kvs="[(''description'', JStr (replicate 500 97))]" and d="replicate 500 97"
         and ?e1.0=quiet and ?e2.0=quiet and c="[]"]
    by (simp add: s0 strip_replicate[OF ns] quiet_simps f)
qed

section \<open>The formatter: properties\<close>

lemma format_todo_views_agree: "TodoDetailView_format_todo = TodoListView_format_todo"
  by (rule ext) (simp add: TodoDetailView_format_todo_def TodoListView_format_todo_def)

lemma format_todo_nonempty:
  "t \<noteq> Map.empty \<Longrightarrow> TodoListView_format_todo (Some t) =
     Some (let f1 = (case t ''_id'' of Some v \<Rightarrow> t(''_id'' \<mapsto> VStr (py_str v)) | None \<Rightarrow> t)
           in (case f1 ''created_at'' of
                 Some (VDatetime d) \<Rightarrow> f1(''created_at'' \<mapsto> VStr (isoformat d))
               | _ \<Rightarrow> f1))"
  by (simp add: TodoListView_format_todo_def Let_def)

lemma format_todo_Some:
  assumes "t \<noteq> Map.empty"
  shows "\<exists>f. TodoListView_format_todo (Some t) = Some f
     \<and> f ''_id'' = map_option (\<lambda>v. VStr (py_str v)) (t ''_id'')
     \<and> f ''created_at'' =
          (case t ''created_at'' of Some (VDatetime d) \<Rightarrow> Some (VStr (isoformat d)) | x \<Rightarrow> x)
     \<and> (\<forall>k. k \<noteq> ''_id'' \<and> k \<noteq> ''created_at'' \<longrightarrow> f k = t k)"
proof -
  define f1 where "f1 = (case t ''_id'' of Some v \<Rightarrow> t(''_id'' \<mapsto> VStr (py_str v)) | None \<Rightarrow> t)"
  define f2 where "f2 = (case f1 ''created_at'' of
                 Some (VDatetime d) \<Rightarrow> f1(''created_at'' \<mapsto> VStr (isoformat d))
               | _ \<Rightarrow> f1)"
  have r: "TodoListView_format_todo (Some t) = Some f2"
    using assms unfolding f1_def f2_def by (simp add: format_todo_nonempty Let_def)
  have a1: "f1 ''_id'' = map_option (\<lambda>v. VStr (py_str v)) (t ''_id'')"
    by (simp add: f1_def split: option.splits)
  have a2: "f1 k = t k" if "k \<noteq> ''_id''" for k
    using that by (simp add: f1_def split: option.splits)
  have b1: "f2 ''created_at'' =
          (case f1 ''created_at'' of Some (VDatetime d) \<Rightarrow> Some (VStr (isoformat d)) | x \<Rightarrow> x)"
    by (simp add: f2_def split: option.splits val.splits)
  have b2: "f2 k = f1 k" if "k \<noteq> ''created_at''" for k
    using that by (simp add: f2_def split: option.splits val.splits)
  have c1: "f2 ''_id'' = map_option (\<lambda>v. VStr (py_str v)) (t ''_id'')"
    using b2[of "''_id''"] a1 by simp
  have c2: "f2 ''created_at'' =
          (case t ''created_at'' of Some (VDatetime d) \<Rightarrow> Some (VStr (isoformat d)) | x \<Rightarrow> x)"
    using b1 a2[of "''created_at''"] by simp
  have c3: "\<forall>k. k \<noteq> ''_id'' \<and> k \<noteq> ''created_at'' \<longrightarrow> f2 k = t k"
    using a2 b2 by simp
  show ?thesis using r c1 c2 c3 by blast
qed

text \<open>
  The claim C9 as stated (every present document is given a mapping) fails at the empty
  document: \<open>not todo\<close> holds for \<open>{}\<close>, and the formatter returns \<open>None\<close>.
\<close>

theorem format_todo_counterexample:
  "TodoListView_format_todo (Some Map.empty) = None
   \<and> TodoDetailView_format_todo (Some Map.empty) = None"
  by (simp add: TodoListView_format_todo_def TodoDetailView_format_todo_def)

lemma pad_numeral: "pad (numeral k) n = pad (pred_numeral k) (n div 10) @ [48 + n mod 10]"
proof -
  have "pad (Suc (pred_numeral k)) n = pad (pred_numeral k) (n div 10) @ [48 + n mod 10]"
    by simp
  then show ?thesis by (simp only: numeral_eq_Suc[symmetric])
qed

lemma iso_ex: "isoformat \<lparr>year = 2024, month = 1, day = 2, hour = 3,
                   minute = 4, second = 5, microsecond = 6000\<rparr> = ascii ''2024-01-02T03:04:05.006000''"
  by (simp add: ascii_def isoformat_def isoformat_sep_def pad_numeral)

lemma hex_ex: "str_objectid example_oid = ascii ''0102030405060708090a0bff''"
  by (simp add: example_oid_def ascii_def hex_digit_def)


lemma example_doc_fields:
  "example_doc ''_id'' = Some (VObjectId example_oid)"
  "example_doc ''description'' = Some (VStr [98, 117, 121])"
  "example_doc ''created_at'' = Some (VDatetime \<lparr>year = 2024, month = 1, day = 2, hour = 3,
                   minute = 4, second = 5, microsecond = 6000\<rparr>)"
  "example_doc ''completed'' = Some (VBool False)"
  by (simp_all add: example_doc_def)

lemma example_doc_nonempty: "example_doc \<noteq> Map.empty"
proof
  assume "example_doc = Map.empty"
  then have "example_doc ''completed'' = Map.empty ''completed''" by (rule fun_cong)
  then show False by (simp add: example_doc_fields)
qed

lemma format_todo_obj_views_agree:
  "TodoDetailView_format_todo_obj = TodoListView_format_todo_obj"
  by (intro ext) (simp add: TodoDetailView_format_todo_obj_def TodoListView_format_todo_obj_def)

lemma format_todo_obj_None: "TodoListView_format_todo_obj None h = (Inr None, h)"
  by (simp add: TodoListView_format_todo_obj_def)

lemma format_todo_obj_empty:
  "h ! a = Map.empty \<Longrightarrow> TodoListView_format_todo_obj (Some a) h = (Inr None, h)"
  by (simp add: TodoListView_format_todo_obj_def)

lemma format_todo_obj_nonempty:
  assumes "h ! a \<noteq> Map.empty"
  shows "\<exists>f. TodoListView_format_todo (Some (h ! a)) = Some f
     \<and> TodoListView_format_todo_obj (Some a) h = (Inr (Some (length h)), h @ [f])"
proof -
  define t where "t = h ! a"
  define f1 where "f1 = (case t ''_id'' of Some v \<Rightarrow> t(''_id'' \<mapsto> VStr (py_str v)) | None \<Rightarrow> t)"
  define f2 where "f2 = (case f1 ''created_at'' of
                 Some (VDatetime d) \<Rightarrow> f1(''created_at'' \<mapsto> VStr (isoformat d))
               | _ \<Rightarrow> f1)"
  have ne: "t \<noteq> Map.empty" using assms by (simp add: t_def)
  have p: "TodoListView_format_todo (Some t) = Some f2"
    unfolding f2_def f1_def by (simp add: format_todo_nonempty[OF ne] Let_def)
  define h1 where "h1 = (case ((h @ [t]) ! length h) ''_id'' of
                       Some v \<Rightarrow> (h @ [t])[length h := ((h @ [t]) ! length h)(''_id'' \<mapsto> VStr (py_str v))]
                     | None \<Rightarrow> h @ [t])"
  have h1: "h1 = h @ [f1]"
    unfolding h1_def f1_def by (cases "t ''_id''") simp_all
  define h2 where "h2 = (case (h1 ! length h) ''created_at'' of
                       Some (VDatetime d) \<Rightarrow>
                         h1[length h := (h1 ! length h)(''created_at'' \<mapsto> VStr (isoformat d))]
                     | _ \<Rightarrow> h1)"
  have h2: "h2 = h @ [f2]"
    unfolding h2_def f2_def h1 by (simp split: option.splits val.splits)
  have "TodoListView_format_todo_obj (Some a) h = (Inr (Some (length h)), h2)"
    using assms unfolding TodoListView_format_todo_obj_def h2_def h1_def t_def Let_def
    by simp
  then show ?thesis using p h2 by (simp add: t_def)
qed

lemma hex_digit_props:
  assumes "d < 16"
  shows "is_hex (hex_digit d)" "\<not> is_ascii_space (hex_digit d)" "hex_val (hex_digit d) = d"
  using assms by (auto simp add: hex_digit_def is_hex_def is_ascii_space_def hex_val_def)

lemma fromhex_hexlify: "\<forall>b\<in>set bs. b < 256 \<Longrightarrow> fromhex (hexlify bs) = Some bs"
proof (induction bs)
  case Nil
  then show ?case by simp
next
  case (Cons b bs)
  have b: "b < 256" using Cons.prems by simp
  then have d: "b div 16 < 16" "b mod 16 < 16" by simp_all
  have "16 * (b div 16) + b mod 16 = b" by simp
  then show ?case using Cons hex_digit_props[OF d(1)] hex_digit_props[OF d(2)] by simp
qed

lemma length_hexlify: "length (hexlify bs) = 2 * length bs"
  by (induction bs) simp_all

lemma ObjectId_init_str:
  "length bs = 12 \<Longrightarrow> \<forall>b\<in>set bs. b < 256 \<Longrightarrow>
   ObjectId_init (str_objectid (ObjectId bs)) = Inr (ObjectId bs)"
  by (simp add: ObjectId_init_def length_hexlify fromhex_hexlify)

lemma format_todo_obj_total:
  "\<exists>res h'. TodoListView_format_todo_obj todo h = (Inr res, h') \<and> take (length h) h' = h"
proof (cases todo)
  case None
  then show ?thesis by (simp add: format_todo_obj_None)
next
  case (Some a)
  show ?thesis
  proof (cases "h ! a = Map.empty")
    case True
    then show ?thesis using Some by (simp add: format_todo_obj_empty)
  next
    case False
    from format_todo_obj_nonempty[OF False] Some show ?thesis by auto
  qed
qed

text \<open>
  C9, as the code has it. \<open>_format_todo\<close> depends on its argument alone. For \<open>None\<close>
  and for a document that is empty it returns \<open>None\<close> and allocates nothing. For any
  other document it returns a new dictionary (a fresh object of the heap) in which
  \<open>_id\<close>, if present, is \<open>str\<close> of the stored value (for an \<open>ObjectId\<close> of twelve
  bytes its 24 hexadecimal digits, which \<open>ObjectId\<close> reads back to the same
  identifier), \<open>created_at\<close>, if present and a datetime, is its \<open>isoformat()\<close> text,
  and every other field is that of the argument. For every argument and heap it returns
  without raising, and every object that was in the heap, the argument included, is as
  it was. Both views have the same method.
\<close>

theorem format_todo_spec:
  "TodoListView_format_todo_obj None h = (Inr None, h)
   \<and> (a < length h \<and> h ! a = Map.empty \<longrightarrow>
        TodoListView_format_todo_obj (Some a) h = (Inr None, h))
   \<and> (a < length h \<and> h ! a \<noteq> Map.empty \<longrightarrow>
        (\<exists>f. TodoListView_format_todo_obj (Some a) h = (Inr (Some (length h)), h @ [f])
          \<and> TodoListView_format_todo (Some (h ! a)) = Some f
          \<and> f ''_id'' = map_option (\<lambda>v. VStr (py_str v)) ((h ! a) ''_id'')
          \<and> f ''created_at'' =
               (case (h ! a) ''created_at'' of
                  Some (VDatetime d) \<Rightarrow> Some (VStr (isoformat d))
                | x \<Rightarrow> x)
          \<and> (\<forall>k. k \<noteq> ''_id'' \<and> k \<noteq> ''created_at'' \<longrightarrow> f k = (h ! a) k)))
   \<and> (\<exists>res h'. TodoListView_format_todo_obj todo h = (Inr res, h')
          \<and> take (length h) h' = h)
   \<and> TodoListView_format_todo None = None
   \<and> TodoListView_format_todo (Some Map.empty) = None
   \<and> (t \<noteq> Map.empty \<longrightarrow>
        (\<exists>f. TodoListView_format_todo (Some t) = Some f
          \<and> f ''_id'' = map_option (\<lambda>v. VStr (py_str v)) (t ''_id'')
          \<and> f ''created_at'' =
               (case t ''created_at'' of
                  Some (VDatetime d) \<Rightarrow> Some (VStr (isoformat d))
                | x \<Rightarrow> x)
          \<and> (\<forall>k. k \<noteq> ''_id'' \<and> k \<noteq> ''created_at'' \<longrightarrow> f k = t k)))
   \<and> (length bs = 12 \<and> (\<forall>b\<in>set bs. b < 256) \<longrightarrow>
        py_str (VObjectId (ObjectId bs)) = hexlify bs
        \<and> length (hexlify bs) = 24
        \<and> ObjectId_init (py_str (VObjectId (ObjectId bs))) = Inr (ObjectId bs))
   \<and> TodoDetailView_format_todo ptodo = TodoListView_format_todo ptodo
   \<and> TodoDetailView_format_todo_obj todo h = TodoListView_format_todo_obj todo h"
proof -
  have 1: "TodoListView_format_todo None = None" "TodoListView_format_todo (Some Map.empty) = None"
    by (simp_all add: TodoListView_format_todo_def)
  have 2: "a < length h \<and> h ! a \<noteq> Map.empty \<longrightarrow>
        (\<exists>f. TodoListView_format_todo_obj (Some a) h = (Inr (Some (length h)), h @ [f])
          \<and> TodoListView_format_todo (Some (h ! a)) = Some f
          \<and> f ''_id'' = map_option (\<lambda>v. VStr (py_str v)) ((h ! a) ''_id'')
          \<and> f ''created_at'' =
               (case (h ! a) ''created_at'' of
                  Some (VDatetime d) \<Rightarrow> Some (VStr (isoformat d))
                | x \<Rightarrow> x)
          \<and> (\<forall>k. k \<noteq> ''_id'' \<and> k \<noteq> ''created_at'' \<longrightarrow> f k = (h ! a) k))"
  proof
    assume a: "a < length h \<and> h ! a \<noteq> Map.empty"
    then have ne: "h ! a \<noteq> Map.empty" by simp
    from format_todo_obj_nonempty[OF ne] obtain f where
      f: "TodoListView_format_todo (Some (h ! a)) = Some f"
         "TodoListView_format_todo_obj (Some a) h = (Inr (Some (length h)), h @ [f])"
      by blast
    from format_todo_Some[OF ne] f(1)
    have "f ''_id'' = map_option (\<lambda>v. VStr (py_str v)) ((h ! a) ''_id'')
          \<and> f ''created_at'' =
               (case (h ! a) ''created_at'' of
                  Some (VDatetime d) \<Rightarrow> Some (VStr (isoformat d))
                | x \<Rightarrow> x)
          \<and> (\<forall>k. k \<noteq> ''_id'' \<and> k \<noteq> ''created_at'' \<longrightarrow> f k = (h ! a) k)"
      by auto
    then show "\<exists>f. TodoListView_format_todo_obj (Some a) h = (Inr (Some (length h)), h @ [f])
          \<and> TodoListView_format_todo (Some (h ! a)) = Some f
          \<and> f ''_id'' = map_option (\<lambda>v. VStr (py_str v)) ((h ! a) ''_id'')
          \<and> f ''created_at'' =
               (case (h ! a) ''created_at'' of
                  Some (VDatetime d) \<Rightarrow> Some (VStr (isoformat d))
                | x \<Rightarrow> x)
          \<and> (\<forall>k. k \<noteq> ''_id'' \<and> k \<noteq> ''created_at'' \<longrightarrow> f k = (h ! a) k)"
      using f by blast
  qed
  have 3: "length bs = 12 \<and> (\<forall>b\<in>set bs. b < 256) \<longrightarrow>
        py_str (VObjectId (ObjectId bs)) = hexlify bs
        \<and> length (hexlify bs) = 24
        \<and> ObjectId_init (py_str (VObjectId (ObjectId bs))) = Inr (ObjectId bs)"
    using ObjectId_init_str[of bs] by (simp add: length_hexlify)
  have 4: "t \<noteq> Map.empty \<longrightarrow>
        (\<exists>f. TodoListView_format_todo (Some t) = Some f
          \<and> f ''_id'' = map_option (\<lambda>v. VStr (py_str v)) (t ''_id'')
          \<and> f ''created_at'' =
               (case t ''created_at'' of
                  Some (VDatetime d) \<Rightarrow> Some (VStr (isoformat d))
                | x \<Rightarrow> x)
          \<and> (\<forall>k. k \<noteq> ''_id'' \<and> k \<noteq> ''created_at'' \<longrightarrow> f k = t k))"
    using format_todo_Some[of t] by blast
  have 5: "a < length h \<and> h ! a = Map.empty \<longrightarrow>
        TodoListView_format_todo_obj (Some a) h = (Inr None, h)"
    by (simp add: format_todo_obj_empty)
  have 6: "TodoDetailView_format_todo ptodo = TodoListView_format_todo ptodo"
    by (simp only: format_todo_views_agree)
  have 7: "TodoDetailView_format_todo_obj todo h = TodoListView_format_todo_obj todo h"
    by (simp only: format_todo_obj_views_agree)
  show ?thesis
    by (intro conjI format_todo_obj_None 5 2 format_todo_obj_total 1 4 3 6 7)
qed

lemma example_oid_canonical:
  "length [1, 2, 3, 4, 5, 6, 7, 8, 9, 10, 11, 255::nat] = 12"
  "\<forall>b\<in>set [1, 2, 3, 4, 5, 6, 7, 8, 9, 10, 11, 255::nat]. b < 256"
  by simp_all

theorem format_todo_spec_witness:
  "(\<exists>f. TodoListView_format_todo_obj (Some 1) [other_doc, example_doc]
          = (Inr (Some 2), [other_doc, example_doc, f])
      \<and> f ''_id'' = Some (VStr (ascii ''0102030405060708090a0bff''))
      \<and> f ''created_at'' = Some (VStr (ascii ''2024-01-02T03:04:05.006000''))
      \<and> f ''description'' = Some (VStr [98, 117, 121])
      \<and> f ''completed'' = Some (VBool False))
   \<and> TodoListView_format_todo_obj (Some 0) [Map.empty] = (Inr None, [Map.empty])
   \<and> ObjectId_init (py_str (VObjectId example_oid)) = Inr example_oid"
proof -
  have nth: "[other_doc, example_doc] ! 1 = example_doc" by simp
  have len: "length [other_doc, example_doc] = 2" "(1::nat) < 2" by simp_all
  from format_todo_spec[where h="[other_doc, example_doc]" and a=1]
  have "\<exists>f. TodoListView_format_todo_obj (Some 1) [other_doc, example_doc]
            = (Inr (Some 2), [other_doc, example_doc] @ [f])
          \<and> TodoListView_format_todo (Some example_doc) = Some f
          \<and> f ''_id'' = map_option (\<lambda>v. VStr (py_str v)) (example_doc ''_id'')
          \<and> f ''created_at'' =
               (case example_doc ''created_at'' of
                  Some (VDatetime d) \<Rightarrow> Some (VStr (isoformat d))
                | x \<Rightarrow> x)
          \<and> (\<forall>k. k \<noteq> ''_id'' \<and> k \<noteq> ''created_at'' \<longrightarrow> f k = example_doc k)"
    using example_doc_nonempty by (simp only: nth len) blast
  then obtain f where f: "TodoListView_format_todo_obj (Some 1) [other_doc, example_doc]
            = (Inr (Some 2), [other_doc, example_doc] @ [f])"
     "f ''_id'' = map_option (\<lambda>v. VStr (py_str v)) (example_doc ''_id'')"
     "f ''created_at'' = (case example_doc ''created_at'' of Some (VDatetime d) \<Rightarrow> Some (VStr (isoformat d)) | x \<Rightarrow> x)"
     "\<forall>k. k \<noteq> ''_id'' \<and> k \<noteq> ''created_at'' \<longrightarrow> f k = example_doc k"
    by blast
  have 1: "f ''_id'' = Some (VStr (ascii ''0102030405060708090a0bff''))"
    using f(2) by (simp only: example_doc_fields option.map py_str.simps hex_ex)
  have 2: "f ''created_at'' = Some (VStr (ascii ''2024-01-02T03:04:05.006000''))"
    using f(3) by (simp only: example_doc_fields option.case val.case iso_ex)
  have "f ''description'' = example_doc ''description''" "f ''completed'' = example_doc ''completed''"
    using f(4) by simp_all
  then have 3: "f ''description'' = Some (VStr [98, 117, 121])" "f ''completed'' = Some (VBool False)"
    by (simp_all only: example_doc_fields)
  have 0: "TodoListView_format_todo_obj (Some 1) [other_doc, example_doc]
          = (Inr (Some 2), [other_doc, example_doc, f])"
    using f(1) by simp
  have e: "TodoListView_format_todo_obj (Some 0) [Map.empty] = (Inr None, [Map.empty])"
    using format_todo_spec[where h="[Map.empty]" and a=0] by simp
  have c: "ObjectId_init (py_str (VObjectId example_oid)) = Inr example_oid"
    using format_todo_spec[where bs="[1, 2, 3, 4, 5, 6, 7, 8, 9, 10, 11, 255]"]
      example_oid_canonical
    unfolding example_oid_def by blast
  show ?thesis using 0 1 2 3 e c by blast
qed

section \<open>The paths of put and delete\<close>

lemma find_one_Some_id: "find_one v c = Some d \<Longrightarrow> d ''_id'' = Some v"
  by (auto simp add: find_one_def find_Some_iff)

lemma find_one_not_falsy: "find_one v c = Some d \<Longrightarrow> \<not> falsy (Some d)"
proof
  assume a: "find_one v c = Some d" and f: "falsy (Some d)"
  from f have "d = Map.empty" by (simp add: falsy_def)
  then have "d ''_id'' = Map.empty ''_id''" by (rule fun_cong)
  then show False using find_one_Some_id[OF a] by simp
qed

lemma falsy_find_one: "falsy (find_one v c) \<longleftrightarrow> find_one v c = None"
  using find_one_not_falsy[of v c] by (cases "find_one v c") (auto simp add: falsy_def)

lemma store_call_fault: "fault e = Some x \<Longrightarrow> store_call e operation c = (Inl x, interfere e c)"
  by (simp add: store_call_def)

lemma store_call_run: "fault e = None \<Longrightarrow> store_call e operation c = operation (interfere e c)"
  by (simp add: store_call_def)

lemma put_try_bad_id:
  "ObjectId_init todo_id = Inl x \<Longrightarrow>
   put_try rd todo_id e1 e2 e3 c = (Inr (error_response 400 ''Invalid todo ID format.''), c)"
  by (simp add: put_try_def http_defs)

lemma put_try_raise:
  "ObjectId_init todo_id = Inr oid \<Longrightarrow> get_description rd = Inl x \<Longrightarrow>
   put_try rd todo_id e1 e2 e3 c = (Inl x, c)"
  by (simp add: put_try_def)

lemma put_try_empty:
  "ObjectId_init todo_id = Inr oid \<Longrightarrow> get_description rd = Inr [] \<Longrightarrow>
   put_try rd todo_id e1 e2 e3 c =
     (Inr (error_response 400 ''Description is required and cannot be empty.''), c)"
  by (simp add: put_try_def http_defs)

lemma put_try_long:
  "ObjectId_init todo_id = Inr oid \<Longrightarrow> get_description rd = Inr desc \<Longrightarrow> 500 < length desc \<Longrightarrow>
   put_try rd todo_id e1 e2 e3 c =
     (Inr (error_response 400 ''Description cannot exceed 500 characters.''), c)"
  by (auto simp add: put_try_def http_defs MAX_DESCRIPTION_LENGTH_def)

lemma put_try_valid:
  assumes "ObjectId_init todo_id = Inr oid" "get_description rd = Inr desc"
    "desc \<noteq> []" "length desc \<le> 500"
  shows "put_try rd todo_id e1 e2 e3 c =
    (case store_call e1 (\<lambda>c. (Inr (find_one (VObjectId oid) c), c)) c of
       (Inl x, c1) \<Rightarrow> (Inl x, c1)
     | (Inr existing_todo, c1) \<Rightarrow>
         if falsy existing_todo then
           (Inr (error_response 404 ''Todo not found.''), c1)
         else
           (case store_call e2 (update_one (VObjectId oid) ''description'' (VStr desc)) c1 of
              (Inl x, c2) \<Rightarrow> (Inl x, c2)
            | (Inr update_result, c2) \<Rightarrow>
                (case store_call e3 (\<lambda>c. (Inr (find_one (VObjectId oid) c), c)) c2 of
                   (Inl x, c3) \<Rightarrow> (Inl x, c3)
                 | (Inr updated_todo, c3) \<Rightarrow>
                     (Inr \<lparr>status = 200, success = True,
                           data = Some (Todo (TodoDetailView_format_todo updated_todo)),
                           count = None, message = Some ''Todo updated successfully'',
                           error = None\<rparr>, c3))))"
  using assms unfolding put_try_def http_defs MAX_DESCRIPTION_LENGTH_def by simp

lemma put_try_fault1:
  assumes "ObjectId_init todo_id = Inr oid" "get_description rd = Inr desc"
    "desc \<noteq> []" "length desc \<le> 500" "fault e1 = Some x"
  shows "put_try rd todo_id e1 e2 e3 c = (Inl x, interfere e1 c)"
  by (simp add: put_try_valid[OF assms(1-4)] store_call_fault[OF assms(5)])

lemma put_try_not_found:
  assumes "ObjectId_init todo_id = Inr oid" "get_description rd = Inr desc"
    "desc \<noteq> []" "length desc \<le> 500" "fault e1 = None"
    "find_one (VObjectId oid) (interfere e1 c) = None"
  shows "put_try rd todo_id e1 e2 e3 c =
     (Inr (error_response 404 ''Todo not found.''), interfere e1 c)"
  by (simp add: put_try_valid[OF assms(1-4)] store_call_run[OF assms(5)] assms(6) falsy_def)

lemma put_try_fault2:
  assumes "ObjectId_init todo_id = Inr oid" "get_description rd = Inr desc"
    "desc \<noteq> []" "length desc \<le> 500" "fault e1 = None"
    "find_one (VObjectId oid) (interfere e1 c) = Some d" "fault e2 = Some x"
  shows "put_try rd todo_id e1 e2 e3 c = (Inl x, interfere e2 (interfere e1 c))"
  by (simp add: put_try_valid[OF assms(1-4)] store_call_run[OF assms(5)] assms(6)
      find_one_not_falsy[OF assms(6)] store_call_fault[OF assms(7)])

lemma put_try_fault3:
  assumes "ObjectId_init todo_id = Inr oid" "get_description rd = Inr desc"
    "desc \<noteq> []" "length desc \<le> 500" "fault e1 = None"
    "find_one (VObjectId oid) (interfere e1 c) = Some d" "fault e2 = None" "fault e3 = Some x"
  shows "put_try rd todo_id e1 e2 e3 c =
     (Inl x, interfere e3 (update_set (VObjectId oid) ''description'' (VStr desc)
                (interfere e2 (interfere e1 c))))"
  by (simp add: put_try_valid[OF assms(1-4)] store_call_run[OF assms(5)] assms(6)
      find_one_not_falsy[OF assms(6)] store_call_run[OF assms(7)] update_one_def
      store_call_fault[OF assms(8)])

lemma put_try_ok:
  assumes "ObjectId_init todo_id = Inr oid" "get_description rd = Inr desc"
    "desc \<noteq> []" "length desc \<le> 500" "fault e1 = None"
    "find_one (VObjectId oid) (interfere e1 c) = Some d" "fault e2 = None" "fault e3 = None"
  shows "put_try rd todo_id e1 e2 e3 c =
     (Inr \<lparr>status = 200, success = True,
           data = Some (Todo (TodoDetailView_format_todo (find_one (VObjectId oid)
              (interfere e3 (update_set (VObjectId oid) ''description'' (VStr desc)
                (interfere e2 (interfere e1 c))))))),
           count = None, message = Some ''Todo updated successfully'', error = None\<rparr>,
      interfere e3 (update_set (VObjectId oid) ''description'' (VStr desc)
                (interfere e2 (interfere e1 c))))"
  by (simp add: put_try_valid[OF assms(1-4)] store_call_run[OF assms(5)] assms(6)
      find_one_not_falsy[OF assms(6)] store_call_run[OF assms(7)] update_one_def
      store_call_run[OF assms(8)])

lemma put_Inr: "put_try rd todo_id e1 e2 e3 c = (Inr r, c') \<Longrightarrow>
   TodoDetailView_put rd todo_id e1 e2 e3 c = (Inr r, c')"
  by (simp add: TodoDetailView_put_def)

lemma delete_try_bad_id:
  "ObjectId_init todo_id = Inl x \<Longrightarrow>
   delete_try todo_id e1 e2 c = (Inr (error_response 400 ''Invalid todo ID format.''), c)"
  by (simp add: delete_try_def http_defs)

lemma delete_try_fault1:
  "ObjectId_init todo_id = Inr oid \<Longrightarrow> fault e1 = Some x \<Longrightarrow>
   delete_try todo_id e1 e2 c = (Inl x, interfere e1 c)"
  by (simp add: delete_try_def store_call_fault)

lemma delete_try_not_found:
  "ObjectId_init todo_id = Inr oid \<Longrightarrow> fault e1 = None \<Longrightarrow>
   find_one (VObjectId oid) (interfere e1 c) = None \<Longrightarrow>
   delete_try todo_id e1 e2 c = (Inr (error_response 404 ''Todo not found.''), interfere e1 c)"
  by (simp add: delete_try_def store_call_run falsy_def http_defs)

lemma delete_try_fault2:
  "ObjectId_init todo_id = Inr oid \<Longrightarrow> fault e1 = None \<Longrightarrow>
   find_one (VObjectId oid) (interfere e1 c) = Some d \<Longrightarrow> fault e2 = Some x \<Longrightarrow>
   delete_try todo_id e1 e2 c = (Inl x, interfere e2 (interfere e1 c))"
  by (simp add: delete_try_def store_call_run find_one_not_falsy store_call_fault)

lemma delete_try_race:
  "ObjectId_init todo_id = Inr oid \<Longrightarrow> fault e1 = None \<Longrightarrow>
   find_one (VObjectId oid) (interfere e1 c) = Some d \<Longrightarrow> fault e2 = None \<Longrightarrow>
   find_one (VObjectId oid) (interfere e2 (interfere e1 c)) = None \<Longrightarrow>
   delete_try todo_id e1 e2 c =
     (Inr (error_response 500 ''Failed to delete todo.''),
      delete_first (VObjectId oid) (interfere e2 (interfere e1 c)))"
  by (simp add: delete_try_def store_call_run find_one_not_falsy delete_one_def http_defs)

lemma delete_try_ok:
  "ObjectId_init todo_id = Inr oid \<Longrightarrow> fault e1 = None \<Longrightarrow>
   find_one (VObjectId oid) (interfere e1 c) = Some d \<Longrightarrow> fault e2 = None \<Longrightarrow>
   find_one (VObjectId oid) (interfere e2 (interfere e1 c)) = Some d' \<Longrightarrow>
   delete_try todo_id e1 e2 c =
     (Inr \<lparr>status = 200, success = True, data = None, count = None,
           message = Some ''Todo deleted successfully'', error = None\<rparr>,
      delete_first (VObjectId oid) (interfere e2 (interfere e1 c)))"
  by (simp add: delete_try_def store_call_run find_one_not_falsy delete_one_def http_defs)

lemma delete_Inr: "delete_try todo_id e1 e2 c = (Inr r, c') \<Longrightarrow>
   TodoDetailView_delete todo_id e1 e2 c = (Inr r, c')"
  by (simp add: TodoDetailView_delete_def)

lemma delete_first_absent: "find_one v c = None \<Longrightarrow> delete_first v c = c"
  by (induction c) (auto simp add: find_one_def split: if_splits)

section \<open>Updating a todo: validation\<close>

lemma example_id_parses:
  "ObjectId_init example_id = Inr example_oid"
  by (simp add: example_id_def example_oid_def ascii_def ObjectId_init_def is_hex_def hex_val_def
      is_ascii_space_def)

lemma spaced_id_parses:
  "ObjectId_init spaced_id = Inr spaced_oid"
  by (simp add: spaced_id_def spaced_oid_def ascii_def ObjectId_init_def is_hex_def hex_val_def
      is_ascii_space_def)

lemma find_one_spaced:
  "find_one (VObjectId spaced_oid) [example_doc] = None"
  by (simp add: find_one_def example_doc_fields example_oid_def spaced_oid_def)

lemma zzz_not_id: "ObjectId_init (replicate 24 122) = Inl (InvalidId (replicate 24 122))"
  by (simp add: ObjectId_init_def is_hex_def is_ascii_space_def numeral_eq_Suc)

lemma xyz_not_id: "ObjectId_init (ascii ''xyz'') = Inl (InvalidId (ascii ''xyz''))"
  by (simp add: ascii_def ObjectId_init_def)

lemma strip_buy_milk: "strip buy_milk = buy_milk"
  by (simp add: buy_milk_def ascii_def strip_def rstrip_def lstrip_def isspace_def)

lemma buy_milk_valid: "buy_milk \<noteq> []" "length buy_milk = 8"
  by (simp_all add: buy_milk_def ascii_def)

lemma find_one_Nil: "find_one v [] = None"
  by (simp add: find_one_def)

lemma find_one_example: "find_one (VObjectId example_oid) [example_doc] = Some example_doc"
  by (simp add: find_one_def example_doc_fields)

text \<open>
  C3. \<open>update(id, description)\<close>: an id that \<open>ObjectId\<close> does not parse (any
  length but 24, or 24 characters that \<open>bytes.fromhex\<close> refuses) is answered 400
  ("Invalid todo ID format.") whatever the body, the environment and the collection are,
  and the collection is returned as it was given (no driver call is made); with an id
  that parses, an empty trimmed description is answered 400, then one longer than 500 is
  answered 400; with a valid description and no document of that id at the lookup the
  answer is 404.
\<close>

theorem update_validation:
  "(ObjectId_init todo_id = Inl x \<longrightarrow>
      TodoDetailView_put rd todo_id e1 e2 e3 c =
        (Inr (error_response 400 ''Invalid todo ID format.''), c))
   \<and> (ObjectId_init todo_id = Inr oid \<and> map_of kvs ''description'' = Some (JStr d)
        \<and> strip d = [] \<longrightarrow>
      TodoDetailView_put (JDict kvs) todo_id e1 e2 e3 c =
        (Inr (error_response 400 ''Description is required and cannot be empty.''), c))
   \<and> (ObjectId_init todo_id = Inr oid \<and> map_of kvs ''description'' = Some (JStr d)
        \<and> 500 < length (strip d) \<longrightarrow>
      TodoDetailView_put (JDict kvs) todo_id e1 e2 e3 c =
        (Inr (error_response 400 ''Description cannot exceed 500 characters.''), c))
   \<and> (ObjectId_init todo_id = Inr oid \<and> map_of kvs ''description'' = Some (JStr d)
        \<and> strip d \<noteq> [] \<and> length (strip d) \<le> 500 \<and> fault e1 = None
        \<and> find_one (VObjectId oid) (interfere e1 c) = None \<longrightarrow>
      TodoDetailView_put (JDict kvs) todo_id e1 e2 e3 c =
        (Inr (error_response 404 ''Todo not found.''), interfere e1 c))"
proof (intro conjI impI)
  assume "ObjectId_init todo_id = Inl x"
  then show "TodoDetailView_put rd todo_id e1 e2 e3 c =
        (Inr (error_response 400 ''Invalid todo ID format.''), c)"
    by (simp add: put_Inr put_try_bad_id)
next
  assume a: "ObjectId_init todo_id = Inr oid \<and> map_of kvs ''description'' = Some (JStr d)
        \<and> strip d = []"
  then have "get_description (JDict kvs) = Inr []" by (simp add: get_description_str)
  then show "TodoDetailView_put (JDict kvs) todo_id e1 e2 e3 c =
        (Inr (error_response 400 ''Description is required and cannot be empty.''), c)"
    using a by (simp add: put_Inr put_try_empty)
next
  assume a: "ObjectId_init todo_id = Inr oid \<and> map_of kvs ''description'' = Some (JStr d)
        \<and> 500 < length (strip d)"
  then have "get_description (JDict kvs) = Inr (strip d)" by (simp add: get_description_str)
  then show "TodoDetailView_put (JDict kvs) todo_id e1 e2 e3 c =
        (Inr (error_response 400 ''Description cannot exceed 500 characters.''), c)"
    using a by (simp add: put_Inr put_try_long)
next
  assume a: "ObjectId_init todo_id = Inr oid \<and> map_of kvs ''description'' = Some (JStr d)
        \<and> strip d \<noteq> [] \<and> length (strip d) \<le> 500 \<and> fault e1 = None
        \<and> find_one (VObjectId oid) (interfere e1 c) = None"
  then have "get_description (JDict kvs) = Inr (strip d)" by (simp add: get_description_str)
  then show "TodoDetailView_put (JDict kvs) todo_id e1 e2 e3 c =
        (Inr (error_response 404 ''Todo not found.''), interfere e1 c)"
    using a by (simp add: put_Inr put_try_not_found)
qed

theorem update_validation_witness:
  "TodoDetailView_put (JDict [(''description'', JStr [])]) (ascii ''xyz'')
      \<lparr>interfere = (\<lambda>c. []), fault = Some (ConnectionFailure [])\<rparr> quiet quiet [example_doc]
     = (Inr (error_response 400 ''Invalid todo ID format.''), [example_doc])
   \<and> TodoDetailView_put (JDict [(''description'', JStr [32, 32])]) example_id
        quiet quiet quiet [example_doc]
     = (Inr (error_response 400 ''Description is required and cannot be empty.''), [example_doc])
   \<and> TodoDetailView_put (JDict [(''description'', JStr (replicate 501 97))]) example_id
        quiet quiet quiet [example_doc]
     = (Inr (error_response 400 ''Description cannot exceed 500 characters.''), [example_doc])
   \<and> TodoDetailView_put (JDict [(''description'', JStr buy_milk)]) example_id
        quiet quiet quiet []
     = (Inr (error_response 404 ''Todo not found.''), [])
   \<and> TodoDetailView_put (JDict [(''description'', JStr buy_milk)]) spaced_id
        quiet quiet quiet [example_doc]
     = (Inr (error_response 404 ''Todo not found.''), [example_doc])
   \<and> TodoDetailView_put (JDict [(''description'', JStr buy_milk)]) (replicate 24 122)
        quiet quiet quiet [example_doc]
     = (Inr (error_response 400 ''Invalid todo ID format.''), [example_doc])"
proof -
  have ns: "\<not> isspace 97" by (simp add: isspace_def)
  have s0: "strip [32, 32] = []"
    by (simp add: strip_def rstrip_def lstrip_def isspace_def)
  show ?thesis
    using update_validation[where todo_id="ascii ''xyz''" and x="InvalidId (ascii ''xyz'')"
        and rd="JDict [(''description'', JStr [])]"
        and ?e1.0="\<lparr>interfere = (\<lambda>c. []), fault = Some (ConnectionFailure [])\<rparr>"
        and ?e2.0=quiet and ?e3.0=quiet and c="[example_doc]"]
      update_validation[where todo_id=example_id and oid=example_oid
        and kvs="[(''description'', JStr [32, 32])]" and d="[32, 32]"
        and ?e1.0=quiet and ?e2.0=quiet and ?e3.0=quiet and c="[example_doc]"]
      update_validation[where todo_id=example_id and oid=example_oid
        and kvs="[(''description'', JStr (replicate 501 97))]" and d="replicate 501 97"
        and ?e1.0=quiet and ?e2.0=quiet and ?e3.0=quiet and c="[example_doc]"]
      update_validation[where todo_id=example_id and oid=example_oid
        and kvs="[(''description'', JStr buy_milk)]" and d="buy_milk"
        and ?e1.0=quiet and ?e2.0=quiet and ?e3.0=quiet and c="[]"]
      update_validation[where todo_id=spaced_id
        and oid=spaced_oid
        and kvs="[(''description'', JStr buy_milk)]" and d="buy_milk"
        and ?e1.0=quiet and ?e2.0=quiet and ?e3.0=quiet and c="[example_doc]"]
      update_validation[where todo_id="replicate 24 122"
        and x="InvalidId (replicate 24 122)"
        and rd="JDict [(''description'', JStr buy_milk)]"
        and ?e1.0=quiet and ?e2.0=quiet and ?e3.0=quiet and c="[example_doc]"]
    by (simp add: xyz_not_id example_id_parses spaced_id_parses zzz_not_id find_one_spaced
        s0 strip_replicate[OF ns] strip_buy_milk buy_milk_valid quiet_simps find_one_Nil)
qed

section \<open>A description that is absent or not a string\<close>

lemma get_description_absent:
  "map_of kvs ''description'' = None \<Longrightarrow> get_description (JDict kvs) = Inr []"
  by (simp add: get_description_def data_get_def json_strip_def strip_def rstrip_def lstrip_def)

lemma get_description_not_str:
  "map_of kvs ''description'' = Some v \<Longrightarrow> \<forall>s. v \<noteq> JStr s \<Longrightarrow>
   get_description (JDict kvs) = Inl (AttributeError (type_name v) ''strip'')"
  by (cases v) (simp_all add: get_description_def data_get_def json_strip_def)

lemma post_try_raise:
  "get_description rd = Inl x \<Longrightarrow> post_try rd now new_id e1 e2 c = (Inl x, c)"
  by (simp add: post_try_def)

lemma post_unexpected:
  "post_try rd now new_id e1 e2 c = (Inl (AttributeError t a), c') \<Longrightarrow>
   TodoListView_post rd now new_id e1 e2 c =
     (Inr (error_response 500 ''An unexpected error occurred while creating the todo.''), c')"
  by (simp add: TodoListView_post_def http_defs)

lemma put_unexpected:
  "put_try rd todo_id e1 e2 e3 c = (Inl (AttributeError t a), c') \<Longrightarrow>
   TodoDetailView_put rd todo_id e1 e2 e3 c =
     (Inr (error_response 500 ''An unexpected error occurred while updating the todo.''), c')"
  by (simp add: TodoDetailView_put_def http_defs)

lemma status_error_response: "status (error_response st msg) = st"
  by (simp add: error_response_def)

lemma get_description_not_dict:
  "\<forall>kvs. rd \<noteq> JDict kvs \<Longrightarrow> get_description rd = Inl (AttributeError (type_name rd) ''get'')"
  by (cases rd) (simp_all add: get_description_def data_get_def)

text \<open>
  The claim C10 as stated fails at two requests. For update, when the id does not parse:
  the id is checked before the body is read, and a body whose description is \<open>null\<close>
  is answered 400, not 500. For a body that is not a JSON object (here the empty list):
  it has no description, but \<open>request.data.get\<close> raises and the answer is 500, not 400.
\<close>

theorem description_not_string_counterexample:
  "TodoDetailView_put (JDict [(''description'', JNull)]) (ascii ''xyz'') quiet quiet quiet []
     = (Inr (error_response 400 ''Invalid todo ID format.''), [])
   \<and> TodoListView_post (JList []) example_now example_oid quiet quiet []
     = (Inr (error_response 500 ''An unexpected error occurred while creating the todo.''), [])"
proof -
  have "get_description (JList []) = Inl (AttributeError ''list'' ''get'')"
    by (simp add: get_description_def data_get_def)
  then show ?thesis
    by (simp add: put_Inr put_try_bad_id xyz_not_id post_unexpected post_try_raise)
qed

text \<open>
  C10, as the code has it. A body that is a JSON object without the key \<open>description\<close>
  is read as the empty string: create answers 400, and so does update (for every id). A
  body that is not a JSON object has no \<open>get\<close>, and a description that is present and
  not a string has no \<open>strip\<close>: the \<open>AttributeError\<close> is answered by the generic
  clause with 500, in create always, in update when the id parses. With an id that does
  not parse, update has answered 400 before reading the body, whatever the body is.
\<close>

theorem description_absent_or_not_string:
  "(map_of kvs ''description'' = None \<longrightarrow>
      TodoListView_post (JDict kvs) now new_id e1 e2 c =
        (Inr (error_response 400 ''Description is required and cannot be empty.''), c))
   \<and> (map_of kvs ''description'' = None \<longrightarrow>
        (\<exists>r. TodoDetailView_put (JDict kvs) todo_id e1 e2 e3 c = (Inr r, c)
           \<and> status r = 400 \<and> \<not> success r))
   \<and> (map_of kvs ''description'' = None \<and> ObjectId_init todo_id = Inr oid \<longrightarrow>
      TodoDetailView_put (JDict kvs) todo_id e1 e2 e3 c =
        (Inr (error_response 400 ''Description is required and cannot be empty.''), c))
   \<and> (map_of kvs ''description'' = Some v \<and> (\<forall>s. v \<noteq> JStr s) \<longrightarrow>
      TodoListView_post (JDict kvs) now new_id e1 e2 c =
        (Inr (error_response 500 ''An unexpected error occurred while creating the todo.''), c))
   \<and> (map_of kvs ''description'' = Some v \<and> (\<forall>s. v \<noteq> JStr s)
        \<and> ObjectId_init todo_id = Inr oid \<longrightarrow>
      TodoDetailView_put (JDict kvs) todo_id e1 e2 e3 c =
        (Inr (error_response 500 ''An unexpected error occurred while updating the todo.''), c))
   \<and> ((\<forall>kvs. rd \<noteq> JDict kvs) \<longrightarrow>
      TodoListView_post rd now new_id e1 e2 c =
        (Inr (error_response 500 ''An unexpected error occurred while creating the todo.''), c))
   \<and> ((\<forall>kvs. rd \<noteq> JDict kvs) \<and> ObjectId_init todo_id = Inr oid \<longrightarrow>
      TodoDetailView_put rd todo_id e1 e2 e3 c =
        (Inr (error_response 500 ''An unexpected error occurred while updating the todo.''), c))
   \<and> (ObjectId_init todo_id = Inl x \<longrightarrow>
      TodoDetailView_put rd todo_id e1 e2 e3 c =
        (Inr (error_response 400 ''Invalid todo ID format.''), c))"
proof (intro conjI impI)
  assume a: "map_of kvs ''description'' = None"
  show "TodoListView_post (JDict kvs) now new_id e1 e2 c =
        (Inr (error_response 400 ''Description is required and cannot be empty.''), c)"
    by (simp add: post_Inr post_try_empty get_description_absent[OF a])
  show "\<exists>r. TodoDetailView_put (JDict kvs) todo_id e1 e2 e3 c = (Inr r, c)
           \<and> status r = 400 \<and> \<not> success r"
  proof (cases "ObjectId_init todo_id")
    case (Inl y)
    then show ?thesis by (simp add: put_Inr put_try_bad_id error_response_def)
  next
    case (Inr oid')
    then show ?thesis
      by (simp add: put_Inr put_try_empty get_description_absent[OF a] error_response_def)
  qed
next
  assume a: "map_of kvs ''description'' = None \<and> ObjectId_init todo_id = Inr oid"
  then show "TodoDetailView_put (JDict kvs) todo_id e1 e2 e3 c =
        (Inr (error_response 400 ''Description is required and cannot be empty.''), c)"
    by (simp add: put_Inr put_try_empty get_description_absent)
next
  assume a: "map_of kvs ''description'' = Some v \<and> (\<forall>s. v \<noteq> JStr s)"
  then have "get_description (JDict kvs) = Inl (AttributeError (type_name v) ''strip'')"
    by (simp add: get_description_not_str)
  then show "TodoListView_post (JDict kvs) now new_id e1 e2 c =
        (Inr (error_response 500 ''An unexpected error occurred while creating the todo.''), c)"
    by (simp add: post_unexpected post_try_raise)
next
  assume a: "map_of kvs ''description'' = Some v \<and> (\<forall>s. v \<noteq> JStr s)
        \<and> ObjectId_init todo_id = Inr oid"
  then have "get_description (JDict kvs) = Inl (AttributeError (type_name v) ''strip'')"
    by (simp add: get_description_not_str)
  then show "TodoDetailView_put (JDict kvs) todo_id e1 e2 e3 c =
        (Inr (error_response 500 ''An unexpected error occurred while updating the todo.''), c)"
    using a by (simp add: put_unexpected put_try_raise)
next
  assume "\<forall>kvs. rd \<noteq> JDict kvs"
  then have "get_description rd = Inl (AttributeError (type_name rd) ''get'')"
    by (rule get_description_not_dict)
  then show "TodoListView_post rd now new_id e1 e2 c =
        (Inr (error_response 500 ''An unexpected error occurred while creating the todo.''), c)"
    by (simp add: post_unexpected post_try_raise)
next
  assume a: "(\<forall>kvs. rd \<noteq> JDict kvs) \<and> ObjectId_init todo_id = Inr oid"
  then have "get_description rd = Inl (AttributeError (type_name rd) ''get'')"
    by (simp add: get_description_not_dict)
  then show "TodoDetailView_put rd todo_id e1 e2 e3 c =
        (Inr (error_response 500 ''An unexpected error occurred while updating the todo.''), c)"
    using a by (simp add: put_unexpected put_try_raise)
next
  assume "ObjectId_init todo_id = Inl x"
  then show "TodoDetailView_put rd todo_id e1 e2 e3 c =
        (Inr (error_response 400 ''Invalid todo ID format.''), c)"
    by (simp add: put_Inr put_try_bad_id)
qed

theorem description_absent_or_not_string_witness:
  "TodoListView_post (JDict [(''title'', JStr buy_milk)]) example_now example_oid
      quiet quiet [example_doc]
     = (Inr (error_response 400 ''Description is required and cannot be empty.''), [example_doc])
   \<and> TodoDetailView_put (JDict [(''title'', JStr buy_milk)]) example_id
        quiet quiet quiet [example_doc]
     = (Inr (error_response 400 ''Description is required and cannot be empty.''), [example_doc])
   \<and> TodoListView_post (JDict [(''description'', JNull)]) example_now example_oid
        quiet quiet [example_doc]
     = (Inr (error_response 500 ''An unexpected error occurred while creating the todo.''),
        [example_doc])
   \<and> TodoDetailView_put (JDict [(''description'', JInt 5)]) example_id
        quiet quiet quiet [example_doc]
     = (Inr (error_response 500 ''An unexpected error occurred while updating the todo.''),
        [example_doc])
   \<and> TodoDetailView_put (JDict [(''description'', JNull)]) spaced_id
        quiet quiet quiet [example_doc]
     = (Inr (error_response 500 ''An unexpected error occurred while updating the todo.''),
        [example_doc])
   \<and> TodoListView_post JNull example_now example_oid quiet quiet [example_doc]
     = (Inr (error_response 500 ''An unexpected error occurred while creating the todo.''),
        [example_doc])
   \<and> TodoDetailView_put (JList []) example_id quiet quiet quiet [example_doc]
     = (Inr (error_response 500 ''An unexpected error occurred while updating the todo.''),
        [example_doc])
   \<and> TodoDetailView_put (JDict [(''description'', JInt 5)]) (ascii ''xyz'')
        quiet quiet quiet [example_doc]
     = (Inr (error_response 400 ''Invalid todo ID format.''), [example_doc])"
  using description_absent_or_not_string[where kvs="[(''title'', JStr buy_milk)]"
      and todo_id=example_id and oid=example_oid
      and ?e1.0=quiet and ?e2.0=quiet and ?e3.0=quiet and c="[example_doc]"
      and now=example_now and new_id=example_oid]
    description_absent_or_not_string[where kvs="[(''description'', JNull)]" and v=JNull
      and todo_id=spaced_id and oid=spaced_oid
      and ?e1.0=quiet and ?e2.0=quiet and ?e3.0=quiet and c="[example_doc]"
      and now=example_now and new_id=example_oid]
    description_absent_or_not_string[where kvs="[(''description'', JInt 5)]" and v="JInt 5"
      and todo_id=example_id and oid=example_oid
      and ?e1.0=quiet and ?e2.0=quiet and ?e3.0=quiet and c="[example_doc]"]
    description_absent_or_not_string[where rd=JNull
      and ?e1.0=quiet and ?e2.0=quiet and c="[example_doc]"
      and now=example_now and new_id=example_oid]
    description_absent_or_not_string[where rd="JList []"
      and todo_id=example_id and oid=example_oid
      and ?e1.0=quiet and ?e2.0=quiet and ?e3.0=quiet and c="[example_doc]"]
    description_absent_or_not_string[where rd="JDict [(''description'', JInt 5)]"
      and todo_id="ascii ''xyz''" and x="InvalidId (ascii ''xyz'')"
      and ?e1.0=quiet and ?e2.0=quiet and ?e3.0=quiet and c="[example_doc]"]
  by (simp add: example_id_parses spaced_id_parses xyz_not_id)

section \<open>Deleting a todo\<close>

lemma find_one_Cons:
  "find_one v (d # c) = (if d ''_id'' = Some v then Some d else find_one v c)"
  by (simp add: find_one_def)

lemma find_one_None_iff: "find_one v c = None \<longleftrightarrow> (\<forall>d\<in>set c. d ''_id'' \<noteq> Some v)"
  by (auto simp add: find_one_def find_None_iff)

lemma find_one_delete_first:
  "unique_ids c \<Longrightarrow> find_one v (delete_first v c) = None"
proof (induction c)
  case Nil
  then show ?case by (simp add: find_one_def)
next
  case (Cons d c)
  show ?case
  proof (cases "d ''_id'' = Some v")
    case True
    have "d ''_id'' \<notin> (\<lambda>d. d ''_id'') ` set c" using Cons.prems by (simp add: unique_ids_def)
    then have "\<forall>e\<in>set c. e ''_id'' \<noteq> Some v" using True by (metis imageI)
    then show ?thesis using True by (simp add: find_one_None_iff)
  next
    case False
    have "unique_ids c" using Cons.prems by (simp add: unique_ids_def)
    then show ?thesis using False Cons.IH by (simp add: find_one_Cons)
  qed
qed

text \<open>
  C2. \<open>delete(id)\<close>: when no document of the id is there at the lookup the answer is
  404; on a collection with unique ids a delete that finds the document answers 200 and
  leaves no document of that id, so that a second delete of the same id answers 404; and
  when the lookup finds the document and \<open>delete_one\<close> then removes nothing (another
  client removed it in between) the answer is 500 ("Failed to delete todo."), not 404.
\<close>

theorem delete_not_found_or_race:
  "(ObjectId_init todo_id = Inr oid \<and> fault e1 = None
      \<and> find_one (VObjectId oid) (interfere e1 c) = None \<longrightarrow>
      TodoDetailView_delete todo_id e1 e2 c =
        (Inr (error_response 404 ''Todo not found.''), interfere e1 c))
   \<and> (ObjectId_init todo_id = Inr oid \<and> unique_ids c
      \<and> find_one (VObjectId oid) c \<noteq> None \<longrightarrow>
      (\<exists>r c1. TodoDetailView_delete todo_id quiet quiet c = (Inr r, c1)
         \<and> status r = 200 \<and> success r
         \<and> find_one (VObjectId oid) c1 = None
         \<and> TodoDetailView_delete todo_id quiet quiet c1 =
             (Inr (error_response 404 ''Todo not found.''), c1)))
   \<and> (ObjectId_init todo_id = Inr oid \<and> fault e1 = None \<and> fault e2 = None
      \<and> find_one (VObjectId oid) (interfere e1 c) \<noteq> None
      \<and> find_one (VObjectId oid) (interfere e2 (interfere e1 c)) = None \<longrightarrow>
      TodoDetailView_delete todo_id e1 e2 c =
        (Inr (error_response 500 ''Failed to delete todo.''), interfere e2 (interfere e1 c)))"
proof (intro conjI impI)
  assume "ObjectId_init todo_id = Inr oid \<and> fault e1 = None
      \<and> find_one (VObjectId oid) (interfere e1 c) = None"
  then show "TodoDetailView_delete todo_id e1 e2 c =
        (Inr (error_response 404 ''Todo not found.''), interfere e1 c)"
    by (simp add: delete_Inr delete_try_not_found)
next
  assume a: "ObjectId_init todo_id = Inr oid \<and> unique_ids c
      \<and> find_one (VObjectId oid) c \<noteq> None"
  then obtain d where d: "find_one (VObjectId oid) c = Some d" by blast
  define c1 where "c1 = delete_first (VObjectId oid) c"
  have 1: "TodoDetailView_delete todo_id quiet quiet c =
      (Inr \<lparr>status = 200, success = True, data = None, count = None,
           message = Some ''Todo deleted successfully'', error = None\<rparr>, c1)"
    using a d delete_try_ok[where ?e1.0=quiet and ?e2.0=quiet and c=c and d=d and d'=d
        and todo_id=todo_id and oid=oid]
    by (simp add: delete_Inr quiet_simps c1_def)
  have 2: "find_one (VObjectId oid) c1 = None"
    using a by (simp add: c1_def find_one_delete_first)
  have 3: "TodoDetailView_delete todo_id quiet quiet c1 =
             (Inr (error_response 404 ''Todo not found.''), c1)"
    using a 2 delete_try_not_found[where ?e1.0=quiet and ?e2.0=quiet and c=c1
        and todo_id=todo_id and oid=oid]
    by (simp add: delete_Inr quiet_simps)
  show "\<exists>r c1. TodoDetailView_delete todo_id quiet quiet c = (Inr r, c1)
         \<and> status r = 200 \<and> success r
         \<and> find_one (VObjectId oid) c1 = None
         \<and> TodoDetailView_delete todo_id quiet quiet c1 =
             (Inr (error_response 404 ''Todo not found.''), c1)"
    using 1 2 3 by simp
next
  assume a: "ObjectId_init todo_id = Inr oid \<and> fault e1 = None \<and> fault e2 = None
      \<and> find_one (VObjectId oid) (interfere e1 c) \<noteq> None
      \<and> find_one (VObjectId oid) (interfere e2 (interfere e1 c)) = None"
  then obtain d where d: "find_one (VObjectId oid) (interfere e1 c) = Some d" by blast
  show "TodoDetailView_delete todo_id e1 e2 c =
        (Inr (error_response 500 ''Failed to delete todo.''), interfere e2 (interfere e1 c))"
    using a d delete_try_race[where ?e1.0=e1 and ?e2.0=e2 and c=c and d=d
        and todo_id=todo_id and oid=oid]
    by (simp add: delete_Inr delete_first_absent)
qed

lemma unique_ids_example: "unique_ids [example_doc]"
  by (simp add: unique_ids_def)

theorem delete_not_found_or_race_witness:
  "TodoDetailView_delete example_id quiet quiet []
     = (Inr (error_response 404 ''Todo not found.''), [])
   \<and> (\<exists>r c1. TodoDetailView_delete example_id quiet quiet [example_doc] = (Inr r, c1)
         \<and> status r = 200 \<and> success r
         \<and> find_one (VObjectId example_oid) c1 = None
         \<and> TodoDetailView_delete example_id quiet quiet c1 =
             (Inr (error_response 404 ''Todo not found.''), c1))
   \<and> TodoDetailView_delete example_id quiet
        \<lparr>interfere = delete_first (VObjectId example_oid),
         fault = None\<rparr> [example_doc]
     = (Inr (error_response 500 ''Failed to delete todo.''), [])"
  using delete_not_found_or_race[where todo_id=example_id
      and oid=example_oid and ?e1.0=quiet and ?e2.0=quiet and c="[]"]
    delete_not_found_or_race[where todo_id=example_id
      and oid=example_oid and c="[example_doc]" and ?e1.0=quiet
      and ?e2.0="\<lparr>interfere = delete_first (VObjectId example_oid),
         fault = None\<rparr>"]
  by (simp add: example_id_parses quiet_simps find_one_Nil find_one_example unique_ids_example
      example_doc_fields)

section \<open>Failures of the views\<close>

lemma get_raised:
  "get_try e1 c = (Inl x, c') \<Longrightarrow> TodoListView_get e1 c = (answer_raised_get x, c')"
  by (cases x) (simp_all add: TodoListView_get_def answer_raised_get_def http_defs)

lemma post_raised:
  "post_try rd now new_id e1 e2 c = (Inl x, c') \<Longrightarrow>
   TodoListView_post rd now new_id e1 e2 c =
     (answer_raised ''An unexpected error occurred while creating the todo.'' x, c')"
  by (cases x) (simp_all add: TodoListView_post_def answer_raised_def http_defs)

lemma put_raised:
  "put_try rd todo_id e1 e2 e3 c = (Inl x, c') \<Longrightarrow>
   TodoDetailView_put rd todo_id e1 e2 e3 c =
     (answer_raised ''An unexpected error occurred while updating the todo.'' x, c')"
  by (cases x) (simp_all add: TodoDetailView_put_def answer_raised_def http_defs)

lemma delete_raised:
  "delete_try todo_id e1 e2 c = (Inl x, c') \<Longrightarrow>
   TodoDetailView_delete todo_id e1 e2 c =
     (answer_raised ''An unexpected error occurred while deleting the todo.'' x, c')"
  by (cases x) (simp_all add: TodoDetailView_delete_def answer_raised_def http_defs)

lemma error_envelopeI:
  "st = 400 \<or> st = 404 \<or> st = 500 \<or> st = 503 \<Longrightarrow> error_envelope (error_response st msg)"
  by (auto simp add: error_envelope_def)

lemma success_error_response: "\<not> success (error_response st msg)"
  by (simp add: error_response_def)

lemma answer_raised_cases:
  "(\<exists>r. answer_raised g x = Inr r \<and> error_envelope r \<and> \<not> success r \<and> status r \<noteq> 200)
   \<or> (answer_raised g x = Inl x \<and> base_only x)"
  by (cases x)
     (simp_all add: answer_raised_def base_only_def error_envelopeI success_error_response
        status_error_response)

lemma answer_raised_get_cases:
  "(\<exists>r. answer_raised_get x = Inr r \<and> error_envelope r \<and> \<not> success r)
   \<or> (answer_raised_get x = Inl x \<and> base_only x)"
  by (cases x)
     (simp_all add: answer_raised_get_def base_only_def error_envelopeI success_error_response)

lemma get_try_envelope:
  "get_try e1 c = (Inr r, c') \<Longrightarrow> success r"
  by (auto simp add: get_try_def split: prod.splits sum.splits)

lemma post_try_envelope:
  "post_try rd now new_id e1 e2 c = (Inr r, c') \<Longrightarrow> \<not> success r \<Longrightarrow> error_envelope r"
  unfolding post_try_def http_defs
  by (auto split: prod.splits sum.splits if_splits intro: error_envelopeI)

lemma put_try_envelope:
  "put_try rd todo_id e1 e2 e3 c = (Inr r, c') \<Longrightarrow> \<not> success r \<Longrightarrow> error_envelope r"
  unfolding put_try_def http_defs
  by (auto split: prod.splits sum.splits if_splits intro: error_envelopeI)

lemma delete_try_envelope:
  "delete_try todo_id e1 e2 c = (Inr r, c') \<Longrightarrow> \<not> success r \<Longrightarrow> error_envelope r"
  unfolding delete_try_def http_defs
  by (auto split: prod.splits sum.splits if_splits intro: error_envelopeI)

lemma get_outcome:
  "(\<exists>r c'. TodoListView_get e1 c = (Inr r, c') \<and> (success r \<or> error_envelope r))
   \<or> (\<exists>x c'. TodoListView_get e1 c = (Inl x, c') \<and> base_only x)"
proof (cases "get_try e1 c")
  case (Pair t c1)
  show ?thesis
  proof (cases t)
    case (Inl x)
    then show ?thesis
      using get_raised[of e1 c x c1] Pair answer_raised_get_cases[of x] by auto
  next
    case (Inr r)
    then show ?thesis
      using Pair get_try_envelope[of e1 c r c1] by (simp add: TodoListView_get_def)
  qed
qed

lemma post_outcome:
  "(\<exists>r c'. TodoListView_post rd now new_id e1 e2 c = (Inr r, c')
       \<and> (success r \<or> error_envelope r))
   \<or> (\<exists>x c'. TodoListView_post rd now new_id e1 e2 c = (Inl x, c') \<and> base_only x)"
proof (cases "post_try rd now new_id e1 e2 c")
  case (Pair t c1)
  show ?thesis
  proof (cases t)
    case (Inl x)
    then show ?thesis
      using post_raised[of rd now new_id e1 e2 c x c1] Pair
        answer_raised_cases[of "''An unexpected error occurred while creating the todo.''" x]
      by auto
  next
    case (Inr r)
    then show ?thesis
      using Pair post_try_envelope[of rd now new_id e1 e2 c r c1] post_Inr[of rd now new_id e1 e2 c r c1]
      by auto
  qed
qed

lemma put_outcome:
  "(\<exists>r c'. TodoDetailView_put rd todo_id e1 e2 e3 c = (Inr r, c')
       \<and> (success r \<or> error_envelope r))
   \<or> (\<exists>x c'. TodoDetailView_put rd todo_id e1 e2 e3 c = (Inl x, c') \<and> base_only x)"
proof (cases "put_try rd todo_id e1 e2 e3 c")
  case (Pair t c1)
  show ?thesis
  proof (cases t)
    case (Inl x)
    then show ?thesis
      using put_raised[of rd todo_id e1 e2 e3 c x c1] Pair
        answer_raised_cases[of "''An unexpected error occurred while updating the todo.''" x]
      by auto
  next
    case (Inr r)
    then show ?thesis
      using Pair put_try_envelope[of rd todo_id e1 e2 e3 c r c1] put_Inr[of rd todo_id e1 e2 e3 c r c1]
      by auto
  qed
qed

lemma delete_outcome:
  "(\<exists>r c'. TodoDetailView_delete todo_id e1 e2 c = (Inr r, c')
       \<and> (success r \<or> error_envelope r))
   \<or> (\<exists>x c'. TodoDetailView_delete todo_id e1 e2 c = (Inl x, c') \<and> base_only x)"
proof (cases "delete_try todo_id e1 e2 c")
  case (Pair t c1)
  show ?thesis
  proof (cases t)
    case (Inl x)
    then show ?thesis
      using delete_raised[of todo_id e1 e2 c x c1] Pair
        answer_raised_cases[of "''An unexpected error occurred while deleting the todo.''" x]
      by auto
  next
    case (Inr r)
    then show ?thesis
      using Pair delete_try_envelope[of todo_id e1 e2 c r c1] delete_Inr[of todo_id e1 e2 c r c1]
      by auto
  qed
qed

lemma failing_simps: "fault (failing x) = Some x" "interfere (failing x) c = c"
  by (simp_all add: failing_def)

lemma get_description_raises:
  "get_description rd = Inl x \<Longrightarrow> \<exists>t a. x = AttributeError t a"
  by (auto simp add: get_description_def data_get_def json_strip_def
      split: json.splits option.splits sum.splits)

lemma answer_raised_AttributeError:
  "answer_raised g (AttributeError t a) = Inr (error_response 500 g)"
  by (simp add: answer_raised_def)

lemma get_try_fault: "fault e1 = Some x \<Longrightarrow> get_try e1 c = (Inl x, interfere e1 c)"
  by (simp add: get_try_def store_call_fault)

lemma get_loop_missing_id:
  "\<exists>d\<in>set todos_cursor. d ''_id'' = None \<Longrightarrow> get_loop todos_cursor acc = Inl (KeyError ''_id'')"
proof (induction todos_cursor arbitrary: acc)
  case Nil
  then show ?case by simp
next
  case (Cons d ds)
  show ?case
  proof (cases "d ''_id''")
    case None
    then show ?thesis by simp
  next
    case (Some v)
    then have "\<exists>d\<in>set ds. d ''_id'' = None" using Cons.prems by auto
    then show ?thesis using Some Cons.IH by (simp add: Let_def)
  qed
qed

lemma set_find_sort_desc: "set (find_sort_desc k c) = set c"
  by (simp add: find_sort_desc_def)

lemma get_try_missing_id:
  "fault e1 = None \<Longrightarrow> \<exists>d\<in>set (interfere e1 c). d ''_id'' = None \<Longrightarrow>
   get_try e1 c = (Inl (KeyError ''_id''), interfere e1 c)"
  using get_loop_missing_id[of "find_sort_desc ''created_at'' (interfere e1 c)" "[]"]
  by (simp add: get_try_def store_call_run set_find_sort_desc)

lemma post_try_fault1:
  "get_description rd = Inr desc \<Longrightarrow> desc \<noteq> [] \<Longrightarrow> length desc \<le> 500 \<Longrightarrow>
   fault e1 = Some x \<Longrightarrow> post_try rd now new_id e1 e2 c = (Inl x, interfere e1 c)"
  by (simp add: post_try_def MAX_DESCRIPTION_LENGTH_def store_call_fault)

lemma insert_one_duplicate:
  "find_one (VObjectId new_id) c = Some d \<Longrightarrow>
   insert_one new_id (todo_doc desc now) c =
     (Inl (OperationFailure (ascii ''E11000 duplicate key error'')), c)"
  by (simp add: insert_one_def todo_doc_def Let_def)

lemma post_try_duplicate:
  "get_description rd = Inr desc \<Longrightarrow> desc \<noteq> [] \<Longrightarrow> length desc \<le> 500 \<Longrightarrow>
   fault e1 = None \<Longrightarrow> find_one (VObjectId new_id) (interfere e1 c) = Some d \<Longrightarrow>
   post_try rd now new_id e1 e2 c =
     (Inl (OperationFailure (ascii ''E11000 duplicate key error'')), interfere e1 c)"
  by (simp add: post_try_def MAX_DESCRIPTION_LENGTH_def store_call_run insert_one_duplicate)

lemma post_try_fault2:
  "get_description rd = Inr desc \<Longrightarrow> desc \<noteq> [] \<Longrightarrow> length desc \<le> 500 \<Longrightarrow>
   fault e1 = None \<Longrightarrow> find_one (VObjectId new_id) (interfere e1 c) = None \<Longrightarrow>
   fault e2 = Some x \<Longrightarrow>
   post_try rd now new_id e1 e2 c =
     (Inl x, interfere e2 (interfere e1 c @ [stored_doc desc now new_id]))"
  by (simp add: post_try_def MAX_DESCRIPTION_LENGTH_def store_call_run insert_one_fresh
      store_call_fault)

text \<open>
  The claim C7 as stated (no exception ever escapes the handler) fails for what
  \<open>except Exception\<close> does not catch: a \<open>KeyboardInterrupt\<close> raised inside the driver
  call of \<open>get\<close> leaves the view.
\<close>

theorem exception_escapes_counterexample:
  "TodoListView_get (failing KeyboardInterrupt) [example_doc]
     = (Inl KeyboardInterrupt, [example_doc])"
  by (simp add: get_raised[OF get_try_fault] failing_simps answer_raised_get_def)

text \<open>
  C7, as the code has it. Every view ends in a response that is a success or the envelope
  \<open>{success: False, error: message}\<close> with status 400, 404, 500 or 503, or else in one
  of the three exceptions that do not derive from \<open>Exception\<close>; nothing that derives
  from \<open>Exception\<close> leaves a view. An exception \<open>x\<close> raised by any driver call of a
  view (the first, or a later one after the earlier ones went through) is answered as
  \<open>answer_raised\<close> says: \<open>ConnectionFailure\<close> 503, \<open>OperationFailure\<close> 500 (in
  \<open>get\<close> with the generic text), any other \<open>Exception\<close> 500, each with a fixed text
  in which the message of \<open>x\<close> does not occur. The failures that are not the driver's
  (a body that has no \<open>get\<close>, a description that has no \<open>strip\<close>, a listed document
  without \<open>_id\<close>) are answered 500, and a duplicate key 500.
\<close>

theorem failures_are_answered:
  "((\<exists>r c'. TodoListView_get e1 c = (Inr r, c') \<and> (success r \<or> error_envelope r))
      \<or> (\<exists>x c'. TodoListView_get e1 c = (Inl x, c') \<and> base_only x))
   \<and> ((\<exists>r c'. TodoListView_post rd now new_id e1 e2 c = (Inr r, c')
          \<and> (success r \<or> error_envelope r))
      \<or> (\<exists>x c'. TodoListView_post rd now new_id e1 e2 c = (Inl x, c') \<and> base_only x))
   \<and> ((\<exists>r c'. TodoDetailView_put rd todo_id e1 e2 e3 c = (Inr r, c')
          \<and> (success r \<or> error_envelope r))
      \<or> (\<exists>x c'. TodoDetailView_put rd todo_id e1 e2 e3 c = (Inl x, c') \<and> base_only x))
   \<and> ((\<exists>r c'. TodoDetailView_delete todo_id e1 e2 c = (Inr r, c')
          \<and> (success r \<or> error_envelope r))
      \<or> (\<exists>x c'. TodoDetailView_delete todo_id e1 e2 c = (Inl x, c') \<and> base_only x))
   \<and> (fault e1 = Some x \<longrightarrow>
        TodoListView_get e1 c = (answer_raised_get x, interfere e1 c))
   \<and> (fault e1 = None \<and> (\<exists>d\<in>set (interfere e1 c). d ''_id'' = None) \<longrightarrow>
        TodoListView_get e1 c =
          (Inr (error_response 500 ''An unexpected error occurred while retrieving todos.''),
           interfere e1 c))
   \<and> (get_description rd = Inl x \<longrightarrow>
        TodoListView_post rd now new_id e1 e2 c =
          (Inr (error_response 500 ''An unexpected error occurred while creating the todo.''), c))
   \<and> (get_description rd = Inr desc \<and> desc \<noteq> [] \<and> length desc \<le> 500
        \<and> fault e1 = Some x \<longrightarrow>
        TodoListView_post rd now new_id e1 e2 c =
          (answer_raised ''An unexpected error occurred while creating the todo.'' x,
           interfere e1 c))
   \<and> (get_description rd = Inr desc \<and> desc \<noteq> [] \<and> length desc \<le> 500
        \<and> fault e1 = None \<and> find_one (VObjectId new_id) (interfere e1 c) \<noteq> None \<longrightarrow>
        TodoListView_post rd now new_id e1 e2 c =
          (Inr (error_response 500 ''Database operation failed. Please try again.''),
           interfere e1 c))
   \<and> (get_description rd = Inr desc \<and> desc \<noteq> [] \<and> length desc \<le> 500
        \<and> fault e1 = None \<and> find_one (VObjectId new_id) (interfere e1 c) = None
        \<and> fault e2 = Some x \<longrightarrow>
        TodoListView_post rd now new_id e1 e2 c =
          (answer_raised ''An unexpected error occurred while creating the todo.'' x,
           interfere e2 (interfere e1 c @ [stored_doc desc now new_id])))
   \<and> (ObjectId_init todo_id = Inr oid \<and> get_description rd = Inl x \<longrightarrow>
        TodoDetailView_put rd todo_id e1 e2 e3 c =
          (Inr (error_response 500 ''An unexpected error occurred while updating the todo.''), c))
   \<and> (ObjectId_init todo_id = Inr oid
        \<and> get_description rd = Inr desc \<and> desc \<noteq> [] \<and> length desc \<le> 500
        \<and> fault e1 = Some x \<longrightarrow>
        TodoDetailView_put rd todo_id e1 e2 e3 c =
          (answer_raised ''An unexpected error occurred while updating the todo.'' x,
           interfere e1 c))
   \<and> (ObjectId_init todo_id = Inr oid
        \<and> get_description rd = Inr desc \<and> desc \<noteq> [] \<and> length desc \<le> 500
        \<and> fault e1 = None \<and> find_one (VObjectId oid) (interfere e1 c) \<noteq> None
        \<and> fault e2 = Some x \<longrightarrow>
        TodoDetailView_put rd todo_id e1 e2 e3 c =
          (answer_raised ''An unexpected error occurred while updating the todo.'' x,
           interfere e2 (interfere e1 c)))
   \<and> (ObjectId_init todo_id = Inr oid
        \<and> get_description rd = Inr desc \<and> desc \<noteq> [] \<and> length desc \<le> 500
        \<and> fault e1 = None \<and> find_one (VObjectId oid) (interfere e1 c) \<noteq> None
        \<and> fault e2 = None \<and> fault e3 = Some x \<longrightarrow>
        TodoDetailView_put rd todo_id e1 e2 e3 c =
          (answer_raised ''An unexpected error occurred while updating the todo.'' x,
           interfere e3 (update_set (VObjectId oid) ''description'' (VStr desc)
              (interfere e2 (interfere e1 c)))))
   \<and> (ObjectId_init todo_id = Inr oid \<and> fault e1 = Some x \<longrightarrow>
        TodoDetailView_delete todo_id e1 e2 c =
          (answer_raised ''An unexpected error occurred while deleting the todo.'' x,
           interfere e1 c))
   \<and> (ObjectId_init todo_id = Inr oid \<and> fault e1 = None
        \<and> find_one (VObjectId oid) (interfere e1 c) \<noteq> None \<and> fault e2 = Some x \<longrightarrow>
        TodoDetailView_delete todo_id e1 e2 c =
          (answer_raised ''An unexpected error occurred while deleting the todo.'' x,
           interfere e2 (interfere e1 c)))"
proof (intro conjI impI)
  show "(\<exists>r c'. TodoListView_get e1 c = (Inr r, c') \<and> (success r \<or> error_envelope r))
      \<or> (\<exists>x c'. TodoListView_get e1 c = (Inl x, c') \<and> base_only x)"
    by (rule get_outcome)
  show "(\<exists>r c'. TodoListView_post rd now new_id e1 e2 c = (Inr r, c')
          \<and> (success r \<or> error_envelope r))
      \<or> (\<exists>x c'. TodoListView_post rd now new_id e1 e2 c = (Inl x, c') \<and> base_only x)"
    by (rule post_outcome)
  show "(\<exists>r c'. TodoDetailView_put rd todo_id e1 e2 e3 c = (Inr r, c')
          \<and> (success r \<or> error_envelope r))
      \<or> (\<exists>x c'. TodoDetailView_put rd todo_id e1 e2 e3 c = (Inl x, c') \<and> base_only x)"
    by (rule put_outcome)
  show "(\<exists>r c'. TodoDetailView_delete todo_id e1 e2 c = (Inr r, c')
          \<and> (success r \<or> error_envelope r))
      \<or> (\<exists>x c'. TodoDetailView_delete todo_id e1 e2 c = (Inl x, c') \<and> base_only x)"
    by (rule delete_outcome)
next
  assume "fault e1 = Some x"
  then show "TodoListView_get e1 c = (answer_raised_get x, interfere e1 c)"
    by (simp add: get_raised get_try_fault)
next
  assume "fault e1 = None \<and> (\<exists>d\<in>set (interfere e1 c). d ''_id'' = None)"
  then have "get_try e1 c = (Inl (KeyError ''_id''), interfere e1 c)"
    by (simp add: get_try_missing_id)
  from get_raised[OF this]
  show "TodoListView_get e1 c =
          (Inr (error_response 500 ''An unexpected error occurred while retrieving todos.''),
           interfere e1 c)"
    by (simp add: answer_raised_get_def)
next
  assume a: "get_description rd = Inl x"
  then obtain t b where "x = AttributeError t b" using get_description_raises by blast
  then show "TodoListView_post rd now new_id e1 e2 c =
          (Inr (error_response 500 ''An unexpected error occurred while creating the todo.''), c)"
    using post_raised[OF post_try_raise[OF a], of now new_id e1 e2 c]
    by (simp add: answer_raised_AttributeError)
next
  assume "get_description rd = Inr desc \<and> desc \<noteq> [] \<and> length desc \<le> 500
        \<and> fault e1 = Some x"
  then show "TodoListView_post rd now new_id e1 e2 c =
          (answer_raised ''An unexpected error occurred while creating the todo.'' x,
           interfere e1 c)"
    by (simp add: post_raised post_try_fault1)
next
  assume a: "get_description rd = Inr desc \<and> desc \<noteq> [] \<and> length desc \<le> 500
        \<and> fault e1 = None \<and> find_one (VObjectId new_id) (interfere e1 c) \<noteq> None"
  then obtain d where "find_one (VObjectId new_id) (interfere e1 c) = Some d" by blast
  then have "post_try rd now new_id e1 e2 c =
     (Inl (OperationFailure (ascii ''E11000 duplicate key error'')), interfere e1 c)"
    using a by (simp add: post_try_duplicate)
  from post_raised[OF this]
  show "TodoListView_post rd now new_id e1 e2 c =
          (Inr (error_response 500 ''Database operation failed. Please try again.''),
           interfere e1 c)"
    by (simp add: answer_raised_def)
next
  assume "get_description rd = Inr desc \<and> desc \<noteq> [] \<and> length desc \<le> 500
        \<and> fault e1 = None \<and> find_one (VObjectId new_id) (interfere e1 c) = None
        \<and> fault e2 = Some x"
  then show "TodoListView_post rd now new_id e1 e2 c =
          (answer_raised ''An unexpected error occurred while creating the todo.'' x,
           interfere e2 (interfere e1 c @ [stored_doc desc now new_id]))"
    by (simp add: post_raised post_try_fault2)
next
  assume a: "ObjectId_init todo_id = Inr oid \<and> get_description rd = Inl x"
  then obtain t b where "x = AttributeError t b" using get_description_raises by blast
  then show "TodoDetailView_put rd todo_id e1 e2 e3 c =
          (Inr (error_response 500 ''An unexpected error occurred while updating the todo.''), c)"
    using a put_raised[OF put_try_raise[of todo_id oid rd x], of e1 e2 e3 c]
    by (simp add: answer_raised_AttributeError)
next
  assume "ObjectId_init todo_id = Inr oid
        \<and> get_description rd = Inr desc \<and> desc \<noteq> [] \<and> length desc \<le> 500
        \<and> fault e1 = Some x"
  then show "TodoDetailView_put rd todo_id e1 e2 e3 c =
          (answer_raised ''An unexpected error occurred while updating the todo.'' x,
           interfere e1 c)"
    by (simp add: put_raised put_try_fault1)
next
  assume a: "ObjectId_init todo_id = Inr oid
        \<and> get_description rd = Inr desc \<and> desc \<noteq> [] \<and> length desc \<le> 500
        \<and> fault e1 = None \<and> find_one (VObjectId oid) (interfere e1 c) \<noteq> None
        \<and> fault e2 = Some x"
  then obtain d where "find_one (VObjectId oid) (interfere e1 c) = Some d" by blast
  then show "TodoDetailView_put rd todo_id e1 e2 e3 c =
          (answer_raised ''An unexpected error occurred while updating the todo.'' x,
           interfere e2 (interfere e1 c))"
    using a by (simp add: put_raised put_try_fault2)
next
  assume a: "ObjectId_init todo_id = Inr oid
        \<and> get_description rd = Inr desc \<and> desc \<noteq> [] \<and> length desc \<le> 500
        \<and> fault e1 = None \<and> find_one (VObjectId oid) (interfere e1 c) \<noteq> None
        \<and> fault e2 = None \<and> fault e3 = Some x"
  then obtain d where "find_one (VObjectId oid) (interfere e1 c) = Some d" by blast
  then show "TodoDetailView_put rd todo_id e1 e2 e3 c =
          (answer_raised ''An unexpected error occurred while updating the todo.'' x,
           interfere e3 (update_set (VObjectId oid) ''description'' (VStr desc)
              (interfere e2 (interfere e1 c))))"
    using a by (simp add: put_raised put_try_fault3)
next
  assume "ObjectId_init todo_id = Inr oid \<and> fault e1 = Some x"
  then show "TodoDetailView_delete todo_id e1 e2 c =
          (answer_raised ''An unexpected error occurred while deleting the todo.'' x,
           interfere e1 c)"
    by (simp add: delete_raised delete_try_fault1)
next
  assume a: "ObjectId_init todo_id = Inr oid \<and> fault e1 = None
        \<and> find_one (VObjectId oid) (interfere e1 c) \<noteq> None \<and> fault e2 = Some x"
  then obtain d where "find_one (VObjectId oid) (interfere e1 c) = Some d" by blast
  then show "TodoDetailView_delete todo_id e1 e2 c =
          (answer_raised ''An unexpected error occurred while deleting the todo.'' x,
           interfere e2 (interfere e1 c))"
    using a by (simp add: delete_raised delete_try_fault2)
qed

lemma get_description_buy_milk:
  "get_description (JDict [(''description'', JStr buy_milk)]) = Inr buy_milk"
  using get_description_str[of "[(''description'', JStr buy_milk)]" buy_milk]
  by (simp add: strip_buy_milk)

lemma get_description_null:
  "get_description (JDict [(''description'', JNull)]) = Inl (AttributeError ''NoneType'' ''strip'')"
  by (simp add: get_description_def data_get_def json_strip_def)

theorem failures_are_answered_witness:
  "TodoListView_get (failing (ConnectionFailure buy_milk)) [example_doc]
     = (Inr (error_response 503 ''Database connection failed. Please try again later.''),
        [example_doc])
   \<and> TodoListView_get (failing (OperationFailure buy_milk)) [example_doc]
     = (Inr (error_response 500 ''An unexpected error occurred while retrieving todos.''),
        [example_doc])
   \<and> TodoListView_post (JDict [(''description'', JStr buy_milk)]) example_now example_oid
        quiet (failing (ConnectionFailure buy_milk)) []
     = (Inr (error_response 503 ''Database connection failed. Please try again later.''),
        [stored_doc buy_milk example_now example_oid])
   \<and> TodoListView_post (JDict [(''description'', JStr buy_milk)]) example_now example_oid
        quiet quiet [example_doc]
     = (Inr (error_response 500 ''Database operation failed. Please try again.''),
        [example_doc])
   \<and> TodoDetailView_put (JDict [(''description'', JStr buy_milk)]) example_id
        quiet quiet (failing (ConnectionFailure buy_milk)) [example_doc]
     = (Inr (error_response 503 ''Database connection failed. Please try again later.''),
        update_set (VObjectId example_oid) ''description'' (VStr buy_milk) [example_doc])
   \<and> TodoDetailView_put (JDict [(''description'', JNull)]) example_id
        quiet quiet quiet [example_doc]
     = (Inr (error_response 500 ''An unexpected error occurred while updating the todo.''),
        [example_doc])
   \<and> TodoDetailView_delete example_id quiet (failing (OtherException buy_milk)) [example_doc]
     = (Inr (error_response 500 ''An unexpected error occurred while deleting the todo.''),
        [example_doc])
   \<and> TodoDetailView_delete example_id (failing SystemExit) quiet [example_doc]
     = (Inl SystemExit, [example_doc])"
  using failures_are_answered[where ?e1.0="failing (ConnectionFailure buy_milk)"
        and c="[example_doc]" and x="ConnectionFailure buy_milk"]
      failures_are_answered[where ?e1.0="failing (OperationFailure buy_milk)"
        and c="[example_doc]" and x="OperationFailure buy_milk"]
      failures_are_answered[where rd="JDict [(''description'', JStr buy_milk)]"
        and desc=buy_milk and now=example_now and new_id=example_oid
        and ?e1.0=quiet and ?e2.0="failing (ConnectionFailure buy_milk)"
        and c="[]" and x="ConnectionFailure buy_milk"]
      failures_are_answered[where rd="JDict [(''description'', JStr buy_milk)]"
        and desc=buy_milk and now=example_now and new_id=example_oid
        and ?e1.0=quiet and ?e2.0=quiet and c="[example_doc]"]
      failures_are_answered[where rd="JDict [(''description'', JStr buy_milk)]"
        and desc=buy_milk and todo_id=example_id and oid=example_oid
        and ?e1.0=quiet and ?e2.0=quiet and ?e3.0="failing (ConnectionFailure buy_milk)"
        and c="[example_doc]" and x="ConnectionFailure buy_milk"]
      failures_are_answered[where rd="JDict [(''description'', JNull)]"
        and todo_id=example_id and oid=example_oid
        and ?e1.0=quiet and ?e2.0=quiet and ?e3.0=quiet
        and c="[example_doc]" and x="AttributeError ''NoneType'' ''strip''"]
      failures_are_answered[where todo_id=example_id and oid=example_oid
        and ?e1.0=quiet and ?e2.0="failing (OtherException buy_milk)"
        and c="[example_doc]" and x="OtherException buy_milk"]
      failures_are_answered[where todo_id=example_id and oid=example_oid
        and ?e1.0="failing SystemExit" and ?e2.0=quiet
        and c="[example_doc]" and x="SystemExit"]
  by (simp add: failing_simps quiet_simps answer_raised_def answer_raised_get_def
      get_description_buy_milk get_description_null buy_milk_valid example_id_parses
      find_one_Nil find_one_example)

section \<open>What an update changes\<close>

lemma length_update_set: "length (update_set v k x c) = length c"
  by (induction c) simp_all

lemma update_set_other_field:
  "i < length c \<Longrightarrow> k' \<noteq> k \<Longrightarrow> (update_set v k x c ! i) k' = (c ! i) k'"
proof (induction c arbitrary: i)
  case Nil
  then show ?case by simp
next
  case (Cons d c)
  then show ?case by (cases i) auto
qed

lemma update_set_other_doc:
  "i < length c \<Longrightarrow> (c ! i) ''_id'' \<noteq> Some v \<Longrightarrow> update_set v k x c ! i = c ! i"
proof (induction c arbitrary: i)
  case Nil
  then show ?case by simp
next
  case (Cons d c)
  then show ?case by (cases i) auto
qed

lemma find_one_update_set:
  "find_one v c = Some d \<Longrightarrow> k \<noteq> ''_id'' \<Longrightarrow>
   find_one v (update_set v k x c) = Some (d(k \<mapsto> bson_val x))"
  by (induction c) (auto simp add: find_one_Cons find_one_Nil split: if_splits)

lemma put_200_try:
  assumes "TodoDetailView_put rd todo_id e1 e2 e3 c = (Inr r, c')" "status r = 200"
  shows "put_try rd todo_id e1 e2 e3 c = (Inr r, c')"
proof (cases "put_try rd todo_id e1 e2 e3 c")
  case (Pair t c1)
  show ?thesis
  proof (cases t)
    case (Inl x)
    from put_raised[of rd todo_id e1 e2 e3 c x c1] Pair Inl assms(1)
    have "answer_raised ''An unexpected error occurred while updating the todo.'' x = Inr r"
      by simp
    then show ?thesis
      using answer_raised_cases[of "''An unexpected error occurred while updating the todo.''" x]
        assms(2)
      by auto
  next
    case (Inr r')
    then show ?thesis using Pair assms(1) put_Inr[of rd todo_id e1 e2 e3 c r' c1] by simp
  qed
qed

lemma put_try_200_path:
  assumes "put_try rd todo_id e1 e2 e3 c = (Inr r, c')" "status r = 200"
  shows "\<exists>oid desc d. ObjectId_init todo_id = Inr oid \<and> get_description rd = Inr desc
     \<and> desc \<noteq> [] \<and> length desc \<le> 500
     \<and> fault e1 = None \<and> find_one (VObjectId oid) (interfere e1 c) = Some d
     \<and> fault e2 = None \<and> fault e3 = None
     \<and> c' = interfere e3 (update_set (VObjectId oid) ''description'' (VStr desc)
               (interfere e2 (interfere e1 c)))"
  using assms unfolding put_try_def http_defs MAX_DESCRIPTION_LENGTH_def store_call_def
    update_one_def Let_def
  by (auto simp add: error_response_def falsy_find_one
      split: sum.splits if_splits option.splits prod.splits)

text \<open>
  C8. A successful \<open>update(id, description)\<close> (status 200), with no other client
  changing the collection during the request, leaves the collection with the same
  documents in the same places, except that the first document of the id has its
  \<open>description\<close> set to the trimmed text: every field other than \<open>description\<close> of
  every document (so \<open>_id\<close>, \<open>created_at\<close> and \<open>completed\<close> of the target), and
  every document of another id, is as before.
\<close>

theorem update_changes_only_description:
  assumes "\<forall>s. interfere e1 s = s" "\<forall>s. interfere e2 s = s" "\<forall>s. interfere e3 s = s"
    and "TodoDetailView_put rd todo_id e1 e2 e3 c = (Inr r, c')"
    and "status r = 200"
  shows "\<exists>oid desc d.
      ObjectId_init todo_id = Inr oid \<and> get_description rd = Inr desc
      \<and> find_one (VObjectId oid) c = Some d
      \<and> find_one (VObjectId oid) c' = Some (d(''description'' \<mapsto> VStr desc))
      \<and> length c' = length c
      \<and> (\<forall>i<length c.
            (\<forall>k. k \<noteq> ''description'' \<longrightarrow> (c' ! i) k = (c ! i) k)
            \<and> ((c ! i) ''_id'' \<noteq> Some (VObjectId oid) \<longrightarrow> c' ! i = c ! i))"
proof -
  from put_try_200_path[OF put_200_try[OF assms(4,5)] assms(5)]
  obtain oid desc d where p: "ObjectId_init todo_id = Inr oid" "get_description rd = Inr desc"
    "find_one (VObjectId oid) (interfere e1 c) = Some d"
    "c' = interfere e3 (update_set (VObjectId oid) ''description'' (VStr desc)
               (interfere e2 (interfere e1 c)))"
    by blast
  have f: "find_one (VObjectId oid) c = Some d" using p(3) assms(1) by simp
  have c': "c' = update_set (VObjectId oid) ''description'' (VStr desc) c"
    using p(4) assms(1-3) by simp
  have 1: "find_one (VObjectId oid) c' = Some (d(''description'' \<mapsto> VStr desc))"
    using find_one_update_set[OF f, of "''description''" "VStr desc"] c' by simp
  have 2: "length c' = length c" by (simp add: c' length_update_set)
  have 3: "\<forall>i<length c.
            (\<forall>k. k \<noteq> ''description'' \<longrightarrow> (c' ! i) k = (c ! i) k)
            \<and> ((c ! i) ''_id'' \<noteq> Some (VObjectId oid) \<longrightarrow> c' ! i = c ! i)"
    by (simp add: c' update_set_other_field update_set_other_doc)
  show ?thesis using p(1,2) f 1 2 3 by blast
qed

lemma other_doc_id: "other_doc ''_id'' \<noteq> Some (VObjectId example_oid)"
  by (simp add: other_doc_def example_oid_def)

lemma find_one_two: "find_one (VObjectId example_oid) [other_doc, example_doc] = Some example_doc"
  using other_doc_id by (simp add: find_one_Cons example_doc_fields)

lemma put_two_docs:
  "TodoDetailView_put (JDict [(''description'', JStr buy_milk)]) example_id quiet quiet quiet
     [other_doc, example_doc]
   = (Inr \<lparr>status = 200, success = True,
           data = Some (Todo (TodoDetailView_format_todo (find_one (VObjectId example_oid)
              (update_set (VObjectId example_oid) ''description'' (VStr buy_milk)
                 [other_doc, example_doc])))),
           count = None, message = Some ''Todo updated successfully'', error = None\<rparr>,
      update_set (VObjectId example_oid) ''description'' (VStr buy_milk)
         [other_doc, example_doc])"
  using put_try_ok[OF example_id_parses get_description_buy_milk, where ?e1.0=quiet
      and ?e2.0=quiet and ?e3.0=quiet and c="[other_doc, example_doc]" and d=example_doc]
  by (simp add: put_Inr buy_milk_valid quiet_simps find_one_two)

theorem update_changes_only_description_witness:
  "\<exists>r c'. TodoDetailView_put (JDict [(''description'', JStr buy_milk)]) example_id
              quiet quiet quiet [other_doc, example_doc] = (Inr r, c')
     \<and> status r = 200
     \<and> length c' = 2
     \<and> c' ! 0 = other_doc
     \<and> (c' ! 1) ''_id'' = Some (VObjectId example_oid)
     \<and> (c' ! 1) ''created_at'' = example_doc ''created_at''
     \<and> (c' ! 1) ''completed'' = Some (VBool False)
     \<and> find_one (VObjectId example_oid) c'
          = Some (example_doc(''description'' \<mapsto> VStr buy_milk))"
proof -
  define r where "r = \<lparr>status = 200, success = True,
           data = Some (Todo (TodoDetailView_format_todo (find_one (VObjectId example_oid)
              (update_set (VObjectId example_oid) ''description'' (VStr buy_milk)
                 [other_doc, example_doc])))),
           count = None, message = Some ''Todo updated successfully'', error = None\<rparr>"
  define c' where "c' = update_set (VObjectId example_oid) ''description'' (VStr buy_milk)
         [other_doc, example_doc]"
  have run: "TodoDetailView_put (JDict [(''description'', JStr buy_milk)]) example_id
              quiet quiet quiet [other_doc, example_doc] = (Inr r, c')"
    by (simp add: put_two_docs r_def c'_def)
  have st: "status r = 200" by (simp add: r_def)
  have q: "\<forall>s. interfere quiet s = s" by (simp add: quiet_simps)
  from update_changes_only_description[OF q q q run st]
  obtain oid desc d where w: "ObjectId_init example_id = Inr oid"
      "get_description (JDict [(''description'', JStr buy_milk)]) = Inr desc"
      "find_one (VObjectId oid) [other_doc, example_doc] = Some d"
      "find_one (VObjectId oid) c' = Some (d(''description'' \<mapsto> VStr desc))"
      "length c' = length [other_doc, example_doc]"
      "\<forall>i<length [other_doc, example_doc].
            (\<forall>k. k \<noteq> ''description'' \<longrightarrow> (c' ! i) k = ([other_doc, example_doc] ! i) k)
            \<and> (([other_doc, example_doc] ! i) ''_id'' \<noteq> Some (VObjectId oid)
                 \<longrightarrow> c' ! i = [other_doc, example_doc] ! i)"
    by blast
  have oid: "oid = example_oid" using w(1) by (simp add: example_id_parses)
  have desc: "desc = buy_milk" using w(2) by (simp add: get_description_buy_milk)
  have d: "d = example_doc" using w(3) by (simp add: oid find_one_two)
  have 0: "c' ! 0 = other_doc" using w(6) other_doc_id by (simp add: oid)
  have 1: "(c' ! 1) k = example_doc k" if "k \<noteq> ''description''" for k
    using w(6) that by simp
  have 2: "(c' ! 1) ''_id'' = Some (VObjectId example_oid)"
    "(c' ! 1) ''created_at'' = example_doc ''created_at''"
    "(c' ! 1) ''completed'' = Some (VBool False)"
    using 1[of "''_id''"] 1[of "''created_at''"] 1[of "''completed''"]
    by (simp_all add: example_doc_fields)
  show ?thesis using run st w(4,5) 0 2 by (simp add: oid desc d)
qed

section \<open>The invariant of the stored descriptions\<close>

lemma description_okI:
  "d ''description'' = Some (VStr s) \<Longrightarrow> s \<noteq> [] \<Longrightarrow> strip s = s \<Longrightarrow> length s \<le> 500 \<Longrightarrow>
   description_ok d"
  using strip_eq_Nil_iff[of s] by (simp add: description_ok_def)

lemma get_description_stripped: "get_description rd = Inr desc \<Longrightarrow> strip desc = desc"
  by (auto simp add: get_description_def data_get_def json_strip_def strip_idem
      strip_def[of "[]"] rstrip_def lstrip_def
      split: json.splits option.splits sum.splits)

lemma stored_doc_description: "stored_doc desc now new_id ''description'' = Some (VStr desc)"
  by (simp add: stored_doc_def bson_doc_def todo_doc_def)

lemma stored_doc_ok:
  "desc \<noteq> [] \<Longrightarrow> strip desc = desc \<Longrightarrow> length desc \<le> 500 \<Longrightarrow>
   description_ok (stored_doc desc now new_id)"
  using description_okI[of "stored_doc desc now new_id" desc] by (simp add: stored_doc_description)

lemma collection_ok_append:
  "collection_ok (c @ [d]) \<longleftrightarrow> collection_ok c \<and> description_ok d"
  by (simp add: collection_ok_def)

lemma collection_ok_update_set:
  "collection_ok c \<Longrightarrow> desc \<noteq> [] \<Longrightarrow> strip desc = desc \<Longrightarrow> length desc \<le> 500 \<Longrightarrow>
   collection_ok (update_set v ''description'' (VStr desc) c)"
proof (induction c)
  case Nil
  then show ?case by simp
next
  case (Cons d c)
  have "description_ok (d(''description'' \<mapsto> VStr desc))"
    using Cons.prems by (simp add: description_okI)
  then show ?case using Cons by (simp add: collection_ok_def)
qed

lemma collection_ok_delete_first:
  "collection_ok c \<Longrightarrow> collection_ok (delete_first v c)"
  by (induction c) (simp_all add: collection_ok_def)

lemma snd_get: "snd (TodoListView_get e1 c) = interfere e1 c"
  by (cases "fault e1"; cases "get_loop (find_sort_desc ''created_at'' (interfere e1 c)) []")
     (simp_all add: TodoListView_get_def get_try_def store_call_def Let_def)

lemma snd_post: "snd (TodoListView_post rd now new_id e1 e2 c) = snd (post_try rd now new_id e1 e2 c)"
  by (simp add: TodoListView_post_def split: prod.splits)

lemma snd_put: "snd (TodoDetailView_put rd todo_id e1 e2 e3 c) = snd (put_try rd todo_id e1 e2 e3 c)"
  by (simp add: TodoDetailView_put_def split: prod.splits)

lemma snd_delete: "snd (TodoDetailView_delete todo_id e1 e2 c) = snd (delete_try todo_id e1 e2 c)"
  by (simp add: TodoDetailView_delete_def split: prod.splits)

lemma post_try_keeps:
  assumes "collection_ok c"
    and p1: "\<forall>s. collection_ok s \<longrightarrow> collection_ok (interfere e1 s)"
    and p2: "\<forall>s. collection_ok s \<longrightarrow> collection_ok (interfere e2 s)"
  shows "collection_ok (snd (post_try rd now new_id e1 e2 c))"
proof (cases "get_description rd")
  case (Inl x)
  then show ?thesis using assms(1) by (simp add: post_try_def)
next
  case (Inr desc)
  note s = get_description_stripped[OF Inr]
  have c1: "collection_ok (interfere e1 c)" using assms(1) p1 by simp
  show ?thesis
  proof (cases "desc \<noteq> [] \<and> length desc \<le> 500")
    case False
    then show ?thesis using Inr assms(1)
      by (auto simp add: post_try_def MAX_DESCRIPTION_LENGTH_def)
  next
    case True
    then have ok: "description_ok (stored_doc desc now new_id)" using s by (simp add: stored_doc_ok)
    have c2: "collection_ok (interfere e2 (interfere e1 c))" using c1 p2 by simp
    have c3: "collection_ok (interfere e2 (interfere e1 c @ [stored_doc desc now new_id]))"
      using c1 ok p2 by (simp add: collection_ok_append)
    show ?thesis using Inr True c1 c2 c3
      unfolding post_try_def MAX_DESCRIPTION_LENGTH_def store_call_def insert_one_def Let_def
      by (auto simp add: todo_doc_def stored_doc_def split: option.splits)
  qed
qed

lemma put_try_keeps:
  assumes "collection_ok c"
    and p1: "\<forall>s. collection_ok s \<longrightarrow> collection_ok (interfere e1 s)"
    and p2: "\<forall>s. collection_ok s \<longrightarrow> collection_ok (interfere e2 s)"
    and p3: "\<forall>s. collection_ok s \<longrightarrow> collection_ok (interfere e3 s)"
  shows "collection_ok (snd (put_try rd todo_id e1 e2 e3 c))"
proof (cases "ObjectId_init todo_id")
  case (Inl x)
  then show ?thesis using assms(1) by (simp add: put_try_bad_id)
next
  case oid: (Inr oid)
  show ?thesis
  proof (cases "get_description rd")
    case (Inl x)
    then show ?thesis using assms(1) oid by (simp add: put_try_raise)
  next
    case (Inr desc)
    note s = get_description_stripped[OF Inr]
    have c1: "collection_ok (interfere e1 c)" using assms(1) p1 by simp
    have c2: "collection_ok (interfere e2 (interfere e1 c))" using c1 p2 by simp
    show ?thesis
    proof (cases "desc \<noteq> [] \<and> length desc \<le> 500")
      case False
      then show ?thesis
      proof (cases "desc = []")
        case True
        then show ?thesis using oid Inr assms(1) by (simp add: put_try_empty)
      next
        case ne: False
        then have "500 < length desc" using False by simp
        then show ?thesis using oid Inr assms(1) by (simp add: put_try_long)
      qed
    next
      case True
      have c3: "collection_ok (interfere e3 (update_set (VObjectId oid) ''description''
                  (VStr desc) (interfere e2 (interfere e1 c))))"
        using c2 True s p3 by (simp add: collection_ok_update_set)
      show ?thesis
        using c1 c2 c3 True
        by (simp add: put_try_valid[OF oid Inr] store_call_def update_one_def Let_def
            split: option.splits)
    qed
  qed
qed

lemma delete_try_keeps:
  assumes "collection_ok c"
    and p1: "\<forall>s. collection_ok s \<longrightarrow> collection_ok (interfere e1 s)"
    and p2: "\<forall>s. collection_ok s \<longrightarrow> collection_ok (interfere e2 s)"
  shows "collection_ok (snd (delete_try todo_id e1 e2 c))"
proof (cases "ObjectId_init todo_id")
  case (Inl x)
  then show ?thesis using assms(1) by (simp add: delete_try_bad_id)
next
  case oid: (Inr oid)
  have c1: "collection_ok (interfere e1 c)" using assms(1) p1 by simp
  have c2: "collection_ok (interfere e2 (interfere e1 c))" using c1 p2 by simp
  have c3: "collection_ok (delete_first (VObjectId oid) (interfere e2 (interfere e1 c)))"
    using c2 by (rule collection_ok_delete_first)
  show ?thesis
    using oid c1 c2 c3
    by (simp add: delete_try_def store_call_def delete_one_def Let_def split: option.splits)
qed

lemma get_keeps: "collection_ok c \<Longrightarrow> keeps e1 \<Longrightarrow> collection_ok (snd (TodoListView_get e1 c))"
  by (simp add: snd_get keeps_def)

lemma post_keeps:
  "collection_ok c \<Longrightarrow> keeps e1 \<Longrightarrow> keeps e2 \<Longrightarrow>
   collection_ok (snd (TodoListView_post rd now new_id e1 e2 c))"
  using post_try_keeps[of c e1 e2 rd now new_id] by (simp add: snd_post keeps_def)

lemma put_keeps:
  "collection_ok c \<Longrightarrow> keeps e1 \<Longrightarrow> keeps e2 \<Longrightarrow> keeps e3 \<Longrightarrow>
   collection_ok (snd (TodoDetailView_put rd todo_id e1 e2 e3 c))"
  using put_try_keeps[of c e1 e2 e3 rd todo_id] by (simp add: snd_put keeps_def)

lemma delete_keeps:
  "collection_ok c \<Longrightarrow> keeps e1 \<Longrightarrow> keeps e2 \<Longrightarrow>
   collection_ok (snd (TodoDetailView_delete todo_id e1 e2 c))"
  using delete_try_keeps[of c e1 e2 todo_id] by (simp add: snd_delete keeps_def)

lemma serve_keeps: "collection_ok c \<Longrightarrow> polite q \<Longrightarrow> collection_ok (snd (serve q c))"
  by (cases q) (simp_all add: get_keeps post_keeps put_keeps delete_keeps)

lemma serve_all_keeps:
  "collection_ok c \<Longrightarrow> list_all polite qs \<Longrightarrow> collection_ok (serve_all qs c)"
proof (induction qs arbitrary: c)
  case Nil
  then show ?case by simp
next
  case (Cons q qs)
  then show ?case by (simp add: serve_keeps)
qed

text \<open>
  C4. The invariant (every stored description is a non-empty string, not white space
  only, of at most 500 characters after trimming) is kept by each of the four operations,
  whatever the request and whichever driver call raises, from any collection that
  satisfies it, as long as the other clients keep it too; hence it holds after any
  sequence of requests served from the empty collection, so every document that create
  or update has written satisfies it.
\<close>

theorem stored_descriptions_stay_valid:
  "(collection_ok c \<and> keeps e1 \<longrightarrow> collection_ok (snd (TodoListView_get e1 c)))
   \<and> (collection_ok c \<and> keeps e1 \<and> keeps e2 \<longrightarrow>
        collection_ok (snd (TodoListView_post rd now new_id e1 e2 c)))
   \<and> (collection_ok c \<and> keeps e1 \<and> keeps e2 \<and> keeps e3 \<longrightarrow>
        collection_ok (snd (TodoDetailView_put rd todo_id e1 e2 e3 c)))
   \<and> (collection_ok c \<and> keeps e1 \<and> keeps e2 \<longrightarrow>
        collection_ok (snd (TodoDetailView_delete todo_id e1 e2 c)))
   \<and> (collection_ok c \<and> list_all polite qs \<longrightarrow> collection_ok (serve_all qs c))
   \<and> (list_all polite qs \<longrightarrow> collection_ok (serve_all qs []))"
proof -
  have "collection_ok []" by (simp add: collection_ok_def)
  then show ?thesis
    by (simp add: get_keeps post_keeps put_keeps delete_keeps serve_all_keeps)
qed

lemma keeps_quiet: "keeps quiet"
  by (simp add: keeps_def quiet_simps)

lemma example_collection_ok: "collection_ok [example_doc]"
  by (simp add: collection_ok_def description_ok_def example_doc_fields isspace_def
      strip_def rstrip_def lstrip_def)

lemma post_buy_milk:
  "TodoListView_post (JDict [(''description'', JStr buy_milk)]) example_now example_oid
     quiet quiet [] =
   (Inr \<lparr>status = 201, success = True,
         data = Some (Todo (TodoListView_format_todo (find_one (VObjectId example_oid)
                  [stored_doc buy_milk example_now example_oid]))),
         count = None, message = Some ''Todo created successfully'', error = None\<rparr>,
    [stored_doc buy_milk example_now example_oid])"
  using post_try_ok[OF get_description_buy_milk, where ?e1.0=quiet and ?e2.0=quiet
      and c="[]" and new_id=example_oid and now=example_now]
  by (simp add: post_Inr buy_milk_valid quiet_simps find_one_Nil)

theorem stored_descriptions_stay_valid_witness:
  "collection_ok (snd (TodoListView_get quiet [example_doc]))
   \<and> collection_ok (snd (TodoListView_post (JDict [(''description'', JStr buy_milk)])
        example_now (ObjectId [9, 9, 9, 9, 9, 9, 9, 9, 9, 9, 9, 9]) quiet quiet [example_doc]))
   \<and> collection_ok (snd (TodoDetailView_put (JDict [(''description'', JStr buy_milk)])
        example_id quiet quiet quiet [example_doc]))
   \<and> collection_ok (snd (TodoDetailView_delete example_id quiet quiet [example_doc]))
   \<and> collection_ok (serve_all
        [ReqPost (JDict [(''description'', JStr buy_milk)]) example_now example_oid quiet quiet,
         ReqPut (JDict [(''description'', JStr (replicate 500 97))]) example_id
           quiet quiet quiet,
         ReqGet quiet] [])
   \<and> serve_all
        [ReqPost (JDict [(''description'', JStr buy_milk)]) example_now example_oid quiet quiet]
        [] = [stored_doc buy_milk example_now example_oid]"
proof -
  have p: "list_all polite
        [ReqPost (JDict [(''description'', JStr buy_milk)]) example_now example_oid quiet quiet,
         ReqPut (JDict [(''description'', JStr (replicate 500 97))]) example_id
           quiet quiet quiet,
         ReqGet quiet]"
    by (simp add: keeps_quiet)
  have l: "serve_all
        [ReqPost (JDict [(''description'', JStr buy_milk)]) example_now example_oid quiet quiet]
        [] = [stored_doc buy_milk example_now example_oid]"
    by (simp add: post_buy_milk)
  show ?thesis
    using stored_descriptions_stay_valid[where c="[example_doc]" and ?e1.0=quiet
        and ?e2.0=quiet and ?e3.0=quiet and rd="JDict [(''description'', JStr buy_milk)]"
        and now=example_now and new_id="ObjectId [9, 9, 9, 9, 9, 9, 9, 9, 9, 9, 9, 9]"
        and todo_id=example_id
        and qs="[ReqPost (JDict [(''description'', JStr buy_milk)]) example_now example_oid
                   quiet quiet,
                 ReqPut (JDict [(''description'', JStr (replicate 500 97))]) example_id
                   quiet quiet quiet,
                 ReqGet quiet]"]
      p l keeps_quiet example_collection_ok
    by simp
qed

section \<open>Listing the todos\<close>

lemma get_loop_formats:
  "\<forall>d\<in>set todos_cursor. d ''_id'' \<noteq> None \<Longrightarrow>
   \<exists>todos. get_loop todos_cursor acc = Inr (acc @ todos)
      \<and> map Some todos = map (\<lambda>d. TodoListView_format_todo (Some d)) todos_cursor"
proof (induction todos_cursor arbitrary: acc)
  case Nil
  then show ?case by simp
next
  case (Cons d ds)
  then obtain v where v: "d ''_id'' = Some v" by auto
  define f1 where "f1 = d(''_id'' \<mapsto> VStr (py_str v))"
  define f2 where "f2 = (case f1 ''created_at'' of
                        Some (VDatetime t) \<Rightarrow> f1(''created_at'' \<mapsto> VStr (isoformat t))
                      | _ \<Rightarrow> f1)"
  have ne: "d \<noteq> Map.empty"
  proof
    assume "d = Map.empty"
    then have "d ''_id'' = Map.empty ''_id''" by (rule fun_cong)
    then show False using v by simp
  qed
  have fmt: "TodoListView_format_todo (Some d) = Some f2"
    unfolding f2_def f1_def using v by (simp add: format_todo_nonempty[OF ne] Let_def)
  have step: "get_loop (d # ds) acc = get_loop ds (acc @ [f2])"
    unfolding f2_def f1_def using v by (simp add: Let_def)
  from Cons.IH[of "acc @ [f2]"] Cons.prems
  obtain todos where t: "get_loop ds (acc @ [f2]) = Inr ((acc @ [f2]) @ todos)"
      "map Some todos = map (\<lambda>d. TodoListView_format_todo (Some d)) ds"
    by auto
  have "get_loop (d # ds) acc = Inr (acc @ (f2 # todos))" using step t(1) by simp
  moreover have "map Some (f2 # todos) = map (\<lambda>d. TodoListView_format_todo (Some d)) (d # ds)"
    using fmt t(2) by simp
  ultimately show ?case by blast
qed

lemma mset_find_sort_desc: "mset (find_sort_desc k c) = mset c"
  by (simp add: find_sort_desc_def)

lemma sorted_find_sort_desc:
  "sorted_wrt (\<lambda>a b. bson_key (b k) \<le> bson_key (a k)) (find_sort_desc k c)"
proof -
  have "sorted (map (\<lambda>d. bson_key (d k)) (sort_key (\<lambda>d. bson_key (d k)) (rev c)))"
    by (rule sorted_sort_key)
  then have "sorted_wrt (\<lambda>a b. bson_key (a k) \<le> bson_key (b k))
      (sort_key (\<lambda>d. bson_key (d k)) (rev c))"
    by (simp add: sorted_wrt_map)
  then show ?thesis by (simp add: find_sort_desc_def sorted_wrt_rev)
qed

lemma bson_key_datetime:
  "bson_key (Some (VDatetime a)) \<le> bson_key (Some (VDatetime b)) \<longleftrightarrow>
   [year a, month a, day a, hour a, minute a, second a, microsecond a]
     \<le> [year b, month b, day b, hour b, minute b, second b, microsecond b]"
  by (simp add: bson_key_def less_eq_prod_def)

text \<open>
  C6. \<open>list()\<close>, when the driver call does not raise and every stored document has its
  \<open>_id\<close> (as the store guarantees): the answer is 200 with \<open>success\<close>, \<open>data\<close> and
  \<open>count\<close>. There is an arrangement \<open>docs\<close> of the documents of the collection, all of
  them and each once, in descending order of \<open>created_at\<close> (for two datetimes the later
  one comes first), such that \<open>data\<close> is, document by document, what the formatter
  gives for \<open>docs\<close>; \<open>count\<close> is the length of \<open>data\<close>, which is the number of
  stored documents. The collection is not changed by the request.
\<close>

theorem list_returns_all_newest_first:
  assumes "fault e1 = None" and "\<forall>d\<in>set (interfere e1 c). d ''_id'' \<noteq> None"
  shows "\<exists>todos docs.
      TodoListView_get e1 c =
        (Inr \<lparr>status = 200, success = True, data = Some (Todos todos),
              count = Some (length todos), message = None, error = None\<rparr>, interfere e1 c)
      \<and> map Some todos = map (\<lambda>d. TodoListView_format_todo (Some d)) docs
      \<and> mset docs = mset (interfere e1 c)
      \<and> length todos = length (interfere e1 c)
      \<and> sorted_wrt (\<lambda>a b. bson_key (b ''created_at'') \<le> bson_key (a ''created_at'')) docs
      \<and> (\<forall>i j a b. i < j \<and> j < length docs
            \<and> (docs ! i) ''created_at'' = Some (VDatetime a)
            \<and> (docs ! j) ''created_at'' = Some (VDatetime b) \<longrightarrow>
            [year b, month b, day b, hour b, minute b, second b, microsecond b]
              \<le> [year a, month a, day a, hour a, minute a, second a, microsecond a])"
proof -
  define docs where "docs = find_sort_desc ''created_at'' (interfere e1 c)"
  have ms: "mset docs = mset (interfere e1 c)" by (simp add: docs_def mset_find_sort_desc)
  have ids: "\<forall>d\<in>set docs. d ''_id'' \<noteq> None"
    using assms(2) by (simp add: docs_def set_find_sort_desc)
  from get_loop_formats[OF ids, of "[]"]
  obtain todos where t: "get_loop docs [] = Inr todos"
      "map Some todos = map (\<lambda>d. TodoListView_format_todo (Some d)) docs"
    by auto
  have run: "TodoListView_get e1 c =
        (Inr \<lparr>status = 200, success = True, data = Some (Todos todos),
              count = Some (length todos), message = None, error = None\<rparr>, interfere e1 c)"
    using t(1)[unfolded docs_def] assms(1)
    unfolding TodoListView_get_def get_try_def store_call_def http_defs Let_def
    by simp
  have "length (map Some todos) = length docs" by (simp only: t(2) length_map)
  then have len: "length todos = length docs" by simp
  have ldocs: "length docs = length (interfere e1 c)"
    using ms by (metis size_mset)
  have srt: "sorted_wrt (\<lambda>a b. bson_key (b ''created_at'') \<le> bson_key (a ''created_at'')) docs"
    unfolding docs_def by (rule sorted_find_sort_desc)
  have newest: "\<forall>i j a b. i < j \<and> j < length docs
            \<and> (docs ! i) ''created_at'' = Some (VDatetime a)
            \<and> (docs ! j) ''created_at'' = Some (VDatetime b) \<longrightarrow>
            [year b, month b, day b, hour b, minute b, second b, microsecond b]
              \<le> [year a, month a, day a, hour a, minute a, second a, microsecond a]"
  proof (intro allI impI)
    fix i j a b
    assume h: "i < j \<and> j < length docs
            \<and> (docs ! i) ''created_at'' = Some (VDatetime a)
            \<and> (docs ! j) ''created_at'' = Some (VDatetime b)"
    have "\<forall>i j. i < j \<longrightarrow> j < length docs \<longrightarrow>
        bson_key ((docs ! j) ''created_at'') \<le> bson_key ((docs ! i) ''created_at'')"
      using srt by (simp add: sorted_wrt_iff_nth_less)
    then have "bson_key ((docs ! j) ''created_at'') \<le> bson_key ((docs ! i) ''created_at'')"
      using h by blast
    then show "[year b, month b, day b, hour b, minute b, second b, microsecond b]
              \<le> [year a, month a, day a, hour a, minute a, second a, microsecond a]"
      using h by (simp add: bson_key_datetime)
  qed
  show ?thesis
    using run t(2) ms len ldocs srt newest by (intro exI[of _ todos] exI[of _ docs]) simp
qed

lemma other_doc_fields:
  "other_doc ''_id'' = Some (VObjectId (ObjectId [9, 9, 9, 9, 9, 9, 9, 9, 9, 9, 9, 9]))"
  "other_doc ''description'' = Some (VStr [119, 97, 108, 107])"
  "other_doc ''created_at'' = Some (VDatetime \<lparr>year = 2023, month = 12, day = 31, hour = 0,
                   minute = 0, second = 0, microsecond = 0\<rparr>)"
  "other_doc ''completed'' = Some (VBool True)"
  by (simp_all add: other_doc_def)

lemma other_doc_nonempty: "other_doc \<noteq> Map.empty"
proof
  assume "other_doc = Map.empty"
  then have "other_doc ''completed'' = Map.empty ''completed''" by (rule fun_cong)
  then show False by (simp add: other_doc_fields)
qed

lemma sort_two_docs:
  "find_sort_desc ''created_at'' [other_doc, example_doc] = [example_doc, other_doc]"
  by (simp add: find_sort_desc_def bson_key_def other_doc_fields example_doc_fields
      less_eq_prod_def)

lemma two_docs_have_ids: "\<forall>d\<in>set [other_doc, example_doc]. d ''_id'' \<noteq> None"
  by (simp add: other_doc_fields example_doc_fields)

theorem list_returns_all_newest_first_witness:
  "(\<exists>todos docs.
      TodoListView_get quiet [other_doc, example_doc] =
        (Inr \<lparr>status = 200, success = True, data = Some (Todos todos),
              count = Some (length todos), message = None, error = None\<rparr>,
         [other_doc, example_doc])
      \<and> map Some todos = map (\<lambda>d. TodoListView_format_todo (Some d)) docs
      \<and> mset docs = mset [other_doc, example_doc]
      \<and> length todos = 2
      \<and> sorted_wrt (\<lambda>a b. bson_key (b ''created_at'') \<le> bson_key (a ''created_at'')) docs)
   \<and> (\<exists>a b.
      TodoListView_get quiet [other_doc, example_doc] =
        (Inr \<lparr>status = 200, success = True, data = Some (Todos [a, b]),
              count = Some 2, message = None, error = None\<rparr>,
         [other_doc, example_doc])
      \<and> a ''description'' = Some (VStr [98, 117, 121])
      \<and> b ''description'' = Some (VStr [119, 97, 108, 107]))"
proof -
  have q: "fault quiet = None" "interfere quiet [other_doc, example_doc] = [other_doc, example_doc]"
    by (simp_all add: quiet_simps)
  have ids: "\<forall>d\<in>set (interfere quiet [other_doc, example_doc]). d ''_id'' \<noteq> None"
    using two_docs_have_ids by (simp only: q)
  from list_returns_all_newest_first[OF q(1) ids]
  have 1: "\<exists>todos docs.
      TodoListView_get quiet [other_doc, example_doc] =
        (Inr \<lparr>status = 200, success = True, data = Some (Todos todos),
              count = Some (length todos), message = None, error = None\<rparr>,
         [other_doc, example_doc])
      \<and> map Some todos = map (\<lambda>d. TodoListView_format_todo (Some d)) docs
      \<and> mset docs = mset [other_doc, example_doc]
      \<and> length todos = 2
      \<and> sorted_wrt (\<lambda>a b. bson_key (b ''created_at'') \<le> bson_key (a ''created_at'')) docs"
    by (simp only: q) (auto simp del: mset.simps)
  have ids2: "\<forall>d\<in>set [example_doc, other_doc]. d ''_id'' \<noteq> None"
    by (simp add: other_doc_fields example_doc_fields)
  from get_loop_formats[OF ids2, of "[]"]
  obtain todos where t: "get_loop [example_doc, other_doc] [] = Inr todos"
      "map Some todos = map (\<lambda>d. TodoListView_format_todo (Some d)) [example_doc, other_doc]"
    by auto
  from format_todo_Some[OF example_doc_nonempty] obtain a where
    a: "TodoListView_format_todo (Some example_doc) = Some a"
       "\<forall>k. k \<noteq> ''_id'' \<and> k \<noteq> ''created_at'' \<longrightarrow> a k = example_doc k"
    by blast
  from format_todo_Some[OF other_doc_nonempty] obtain b where
    b: "TodoListView_format_todo (Some other_doc) = Some b"
       "\<forall>k. k \<noteq> ''_id'' \<and> k \<noteq> ''created_at'' \<longrightarrow> b k = other_doc k"
    by blast
  have "map Some todos = map Some [a, b]" using t(2) a(1) b(1) by simp
  then have todos: "todos = [a, b]" by (simp only: inj_map_eq_map[OF inj_Some])
  have run: "TodoListView_get quiet [other_doc, example_doc] =
        (Inr \<lparr>status = 200, success = True, data = Some (Todos [a, b]),
              count = Some 2, message = None, error = None\<rparr>,
         [other_doc, example_doc])"
    using t(1) todos q sort_two_docs
    unfolding TodoListView_get_def get_try_def store_call_def http_defs Let_def
    by simp
  have da: "a ''description'' = Some (VStr [98, 117, 121])"
    using a(2) by (simp add: example_doc_fields)
  have db: "b ''description'' = Some (VStr [119, 97, 108, 107])"
    using b(2) by (simp add: other_doc_fields)
  show ?thesis using 1 run da db by blast
qed

section \<open>The round trip of create\<close>






















end
